theory Spec2Isabelle
  imports Main "HOL-Library.AList"
begin

section \<open>JavaScript values\<close>

text \<open>
  The values the collector works on are the trees that \<open>JSON.parse\<close> builds, plus
  \<open>undefined\<close> and the members that an object inherits from \<open>Object.prototype\<close>. An object
  is its list of own properties in the order of \<open>Object.keys\<close>, which is the order of the
  document it was parsed from when no name is an array index. The names that the program
  itself reads in a document or in collected data (\<open>if\<close>, \<open>key\<close>, \<open>structure\<close>, ...) are
  none of the inherited ones, so these reads are reads of own properties. Where the
  program looks up a name taken from a document in an object literal of its own (the
  predicate registry, and \<open>collectedData\<close> and \<open>data\<close> in the final reshape) the inherited
  members are modelled: \<open>JInherited n\<close> is the member \<open>n\<close> of \<open>Object.prototype\<close>, a built-in
  function, and under \<open>__proto__\<close> the prototype itself. The values collected for
  different properties are different objects. Numbers are integers.
\<close>

datatype js =
    JUndefined
  | JNull
  | JBool bool
  | JNum int
  | JStr string
  | JArr "js list"
  | JObj "(string \<times> js) list"
  | JInherited string

text \<open>
  What a \<open>throw\<close> or a rejected promise carries. \<open>Unmodelled\<close> is never thrown by the
  program: the model answers with it where a step leaves the values it can represent
  (a property stored on an array or on a built-in object, a prototype replaced).
\<close>

datatype error = Error string | TypeError string | Unmodelled string

text \<open>\<open>if (v)\<close>, \<open>v ? a : b\<close>, \<open>a && b\<close>, \<open>!v\<close>: the truthiness of a value.\<close>

fun truthy :: "js \<Rightarrow> bool" where
  "truthy JUndefined = False"
| "truthy JNull = False"
| "truthy (JBool b) = b"
| "truthy (JNum n) = (n \<noteq> 0)"
| "truthy (JStr s) = (s \<noteq> [])"
| "truthy (JArr xs) = True"
| "truthy (JObj kvs) = True"
| "truthy (JInherited n) = True"

definition digit_char :: "nat \<Rightarrow> char" where
  "digit_char d = char_of (48 + d)"

function string_of_nat :: "nat \<Rightarrow> string" where
  "string_of_nat n =
     (if n < 10 then [digit_char n] else string_of_nat (n div 10) @ [digit_char (n mod 10)])"
  by pat_completeness auto
termination
  by (relation "measure (\<lambda>n. n)") auto

definition string_of_int :: "int \<Rightarrow> string" where
  "string_of_int i = (if i < 0 then CHR ''-'' # string_of_nat (nat (- i)) else string_of_nat (nat i))"

fun join :: "string \<Rightarrow> string list \<Rightarrow> string" where
  "join sep [] = []"
| "join sep [x] = x"
| "join sep (x # y # ys) = x @ sep @ join sep (y # ys)"

text \<open>\<open>String(v)\<close>, as a template literal and a computed property name apply it.\<close>

fun ToString :: "js \<Rightarrow> string" where
  "ToString JUndefined = ''undefined''"
| "ToString JNull = ''null''"
| "ToString (JBool b) = (if b then ''true'' else ''false'')"
| "ToString (JNum n) = string_of_int n"
| "ToString (JStr s) = s"
| "ToString (JArr xs) =
     join '','' (map (\<lambda>x. if x = JUndefined \<or> x = JNull then [] else ToString x) xs)"
| "ToString (JObj kvs) = ''[object Object]''"
| "ToString (JInherited n) =
     (if n = ''__proto__'' then ''[object Object]''
      else ''function '' @ (if n = ''constructor'' then ''Object'' else n) @ ''() { [native code] }'')"

definition index_names :: "nat \<Rightarrow> string list" where
  "index_names n = map string_of_nat [0..<n]"

text \<open>\<open>Object.keys(v)\<close>: it throws on \<open>undefined\<close> and \<open>null\<close>, lists the indices of
  an array or a string, and nothing for a number or a boolean.\<close>

fun Object_keys :: "js \<Rightarrow> error + string list" where
  "Object_keys JUndefined = Inl (TypeError ''Cannot convert undefined or null to object'')"
| "Object_keys JNull = Inl (TypeError ''Cannot convert undefined or null to object'')"
| "Object_keys (JBool b) = Inr []"
| "Object_keys (JNum n) = Inr []"
| "Object_keys (JStr s) = Inr (index_names (length s))"
| "Object_keys (JArr xs) = Inr (index_names (length xs))"
| "Object_keys (JObj kvs) = Inr (map fst kvs)"
| "Object_keys (JInherited n) = Inr []"

definition obj_get :: "(string \<times> js) list \<Rightarrow> string \<Rightarrow> js" where
  "obj_get kvs k = (case map_of kvs k of None \<Rightarrow> JUndefined | Some v \<Rightarrow> v)"

text \<open>\<open>v[k]\<close> and \<open>v.k\<close>: reading a property throws on \<open>undefined\<close> and \<open>null\<close>;
  an absent property reads as \<open>undefined\<close>.\<close>

fun js_get :: "js \<Rightarrow> string \<Rightarrow> error + js" where
  "js_get JUndefined k = Inl (TypeError (''Cannot read property '' @ k @ '' of undefined''))"
| "js_get JNull k = Inl (TypeError (''Cannot read property '' @ k @ '' of null''))"
| "js_get (JBool b) k = Inr JUndefined"
| "js_get (JNum n) k = Inr JUndefined"
| "js_get (JStr s) k =
     Inr (case find (\<lambda>i. string_of_nat i = k) [0..<length s] of
            Some i \<Rightarrow> JStr [s ! i]
          | None \<Rightarrow> if k = ''length'' then JNum (int (length s)) else JUndefined)"
| "js_get (JArr xs) k =
     Inr (case find (\<lambda>i. string_of_nat i = k) [0..<length xs] of
            Some i \<Rightarrow> xs ! i
          | None \<Rightarrow> if k = ''length'' then JNum (int (length xs)) else JUndefined)"
| "js_get (JObj kvs) k = Inr (obj_get kvs k)"
| "js_get (JInherited n) k = Inl (Unmodelled ''property of a built-in object'')"

text \<open>Reading a property of a value known not to be \<open>undefined\<close> or \<open>null\<close>.\<close>

definition js_prop :: "js \<Rightarrow> string \<Rightarrow> js" where
  "js_prop v k = (case js_get v k of Inl e \<Rightarrow> JUndefined | Inr x \<Rightarrow> x)"

section \<open>The collaborators of systemStats.js\<close>

text \<open>
  \<open>normalize.data\<close> receives the options object that \<open>_processData\<close> assembles.
\<close>

record tag_spec =
  tags :: js
  definitions :: js
  opts :: js

record options =
  key :: js
  filterByKeys :: "js list"
  renameKeysByPattern :: "js list"
  convertArrayToMap :: js
  includeFirstEntry :: js
  formatTimestamps :: js
  runCustomFunctions :: js
  addKeysByTag :: tag_spec
  propertyKey :: string

text \<open>
  The modules \<open>util.js\<close>, \<open>normalize.js\<close>, \<open>constants.js\<close>, \<open>endpointLoader.js\<close> and
  the \<open>mustache\<close> package are not part of the sources, so what \<open>systemStats.js\<close> calls in
  them is a parameter of the model. A function that can throw returns a sum.
  \<^item> \<open>STATS_KEY_SEP\<close>: \<open>constants.STATS_KEY_SEP\<close>;
  \<^item> \<open>compareVersionStrings\<close>: \<open>util.compareVersionStrings(v1, comparator, v2)\<close>;
  \<^item> \<open>render\<close>: \<open>mustache.render(template, view)\<close>;
  \<^item> \<open>normalize_data\<close>: \<open>normalize.data(data, options)\<close>;
  \<^item> \<open>loadEndpoint\<close>: what the loader hands to the callback of
    \<open>loadEndpoint(endpoint, keyArgs, cb)\<close>: an error, or the mapping \<open>data.data\<close>;
  \<^item> \<open>auth\<close>: the outcome of \<open>loader.auth()\<close>, \<open>None\<close> when it resolves.
\<close>

record env =
  STATS_KEY_SEP :: string
  compareVersionStrings :: "js \<Rightarrow> string \<Rightarrow> js \<Rightarrow> error + bool"
  render :: "js \<Rightarrow> js \<Rightarrow> error + string"
  normalize_data :: "js \<Rightarrow> options \<Rightarrow> error + js"
  loadEndpoint :: "js \<Rightarrow> js \<Rightarrow> error + (string \<times> js) list"
  auth :: "error option"

text \<open>The document \<open>config/properties.json\<close>, another parameter: its members \<open>stats\<close>,
  \<open>context\<close>, \<open>definitions\<close> and \<open>global\<close>.\<close>

record properties =
  p_stats :: js
  p_context :: js
  p_definitions :: js
  p_global :: js

section \<open>Conditional blocks\<close>

subsection \<open>The predicates\<close>

definition apostrophe :: string where
  "apostrophe = [CHR 0x27]"

definition deviceVersionGreaterOrEqual ::
  "env \<Rightarrow> (string \<times> js) list \<Rightarrow> js \<Rightarrow> error + js" where
  "deviceVersionGreaterOrEqual E contextData versionToCompare =
     (let deviceVersion = obj_get contextData ''deviceVersion'' in
      if deviceVersion = JUndefined
      then Inl (Error (''deviceVersionGreaterOrEqual: context has no property ''
                        @ apostrophe @ ''deviceVersion'' @ apostrophe))
      else (case compareVersionStrings E deviceVersion ''>='' versionToCompare of
              Inl e \<Rightarrow> Inl e
            | Inr b \<Rightarrow> Inr (JBool b)))"

definition isModuleProvisioned :: "(string \<times> js) list \<Rightarrow> js \<Rightarrow> error + js" where
  "isModuleProvisioned contextData moduleToCompare =
     (let provisioning = obj_get contextData ''provisioning'' in
      if provisioning = JUndefined
      then Inl (Error (''isModuleProvisioned: context has no property ''
                        @ apostrophe @ ''provisioning'' @ apostrophe))
      else (case js_get provisioning (ToString moduleToCompare) of
              Inl e \<Rightarrow> Inl e
            | Inr m \<Rightarrow>
                (let level = js_prop (if truthy m then m else JObj []) ''level'' in
                 Inr (JBool ((if truthy level then level else JStr ''none'') \<noteq> JStr ''none'')))))"

subsection \<open>The registry\<close>

text \<open>
  \<open>CONDITIONAL_FUNCS\<close> is an object literal with the two predicates as own properties.
  \<open>CONDITIONAL_FUNCS[key]\<close> is an ordinary property read, so a key that names a member of
  \<open>Object.prototype\<close> finds that member instead of \<open>undefined\<close>.
\<close>

datatype func =
    DeviceVersionGreaterOrEqual
  | IsModuleProvisioned
  | Inherited string

definition Object_prototype_names :: "string list" where
  "Object_prototype_names =
     [''constructor'', ''__defineGetter__'', ''__defineSetter__'', ''hasOwnProperty'',
      ''__lookupGetter__'', ''__lookupSetter__'', ''isPrototypeOf'', ''propertyIsEnumerable'',
      ''toString'', ''valueOf'', ''__proto__'', ''toLocaleString'']"

definition CONDITIONAL_FUNCS :: "string \<Rightarrow> func option" where
  "CONDITIONAL_FUNCS k =
     (if k = ''deviceVersionGreaterOrEqual'' then Some DeviceVersionGreaterOrEqual
      else if k = ''isModuleProvisioned'' then Some IsModuleProvisioned
      else if k \<in> set Object_prototype_names then Some (Inherited k)
      else None)"

text \<open>
  \<open>func(this.contextData, conditionalBlock[key])\<close>. An inherited member is called with
  no receiver: \<open>Object(contextData, _)\<close> returns the context object, \<open>toString\<close> returns
  \<open>[object Undefined]\<close>, \<open>__proto__\<close> is not a function, and every other member converts
  its missing receiver to an object, which throws.
\<close>

fun call_func :: "env \<Rightarrow> func \<Rightarrow> (string \<times> js) list \<Rightarrow> js \<Rightarrow> error + js" where
  "call_func E DeviceVersionGreaterOrEqual contextData arg =
     deviceVersionGreaterOrEqual E contextData arg"
| "call_func E IsModuleProvisioned contextData arg = isModuleProvisioned contextData arg"
| "call_func E (Inherited k) contextData arg =
     (if k = ''constructor'' then Inr (JObj contextData)
      else if k = ''toString'' then Inr (JStr ''[object Undefined]'')
      else if k = ''__proto__'' then Inl (TypeError ''func is not a function'')
      else Inl (TypeError ''Cannot convert undefined or null to object''))"

subsection \<open>Evaluating a block\<close>

text \<open>
  The body of \<open>_resolveConditional\<close>: the \<open>forEach\<close> over the keys, with the variable
  \<open>ret\<close> and, as the effect of the loop, the list of keys whose function was invoked.
  \<open>ret && func(...)\<close> calls \<open>func\<close> only when \<open>ret\<close> is truthy.
\<close>

fun resolve_keys ::
  "env \<Rightarrow> (string \<times> js) list \<Rightarrow> js \<Rightarrow> string list \<Rightarrow> js \<Rightarrow> string list
     \<Rightarrow> (error + js) \<times> string list" where
  "resolve_keys E contextData conditionalBlock [] ret invoked = (Inr ret, invoked)"
| "resolve_keys E contextData conditionalBlock (k # ks) ret invoked =
     (case CONDITIONAL_FUNCS k of
        None \<Rightarrow> (Inl (Error (''Unknown property in conditional block '' @ k)), invoked)
      | Some f \<Rightarrow>
          if truthy ret
          then (case call_func E f contextData (js_prop conditionalBlock k) of
                  Inl e \<Rightarrow> (Inl e, invoked @ [k])
                | Inr v \<Rightarrow> resolve_keys E contextData conditionalBlock ks v (invoked @ [k]))
          else resolve_keys E contextData conditionalBlock ks ret invoked)"

definition resolveConditional_run ::
  "env \<Rightarrow> (string \<times> js) list \<Rightarrow> js \<Rightarrow> (error + js) \<times> string list" where
  "resolveConditional_run E contextData conditionalBlock =
     (case Object_keys conditionalBlock of
        Inl e \<Rightarrow> (Inl e, [])
      | Inr ks \<Rightarrow> resolve_keys E contextData conditionalBlock ks (JBool True) [])"

text \<open>\<open>SystemStats.prototype._resolveConditional\<close>: the value returned or the error thrown.\<close>

definition resolveConditional :: "env \<Rightarrow> (string \<times> js) list \<Rightarrow> js \<Rightarrow> error + js" where
  "resolveConditional E contextData conditionalBlock =
     fst (resolveConditional_run E contextData conditionalBlock)"

text \<open>The keys whose predicate function the evaluation invoked, in order.\<close>

definition invoked_predicates :: "env \<Rightarrow> (string \<times> js) list \<Rightarrow> js \<Rightarrow> string list" where
  "invoked_predicates E contextData conditionalBlock =
     snd (resolveConditional_run E contextData conditionalBlock)"

section \<open>Resolving a property\<close>

text \<open>
  The own property names that are array indices (the decimal numerals below \<open>2^32 - 1\<close>,
  written without a leading zero) come first in \<open>Object.keys\<close>, in ascending order, before the other names, which keep
  the order of their creation.
\<close>

definition digit_of :: "char \<Rightarrow> int option" where
  "digit_of c = (let n = (of_char c :: int) in if 48 \<le> n \<and> n \<le> 57 then Some (n - 48) else None)"

fun decimal :: "int \<Rightarrow> string \<Rightarrow> int option" where
  "decimal acc [] = Some acc"
| "decimal acc (c # cs) =
     (case digit_of c of None \<Rightarrow> None | Some d \<Rightarrow> decimal (10 * acc + d) cs)"

definition array_index :: "string \<Rightarrow> bool" where
  "array_index k =
     (case decimal 0 k of
        None \<Rightarrow> False
      | Some n \<Rightarrow> k \<noteq> [] \<and> (k = ''0'' \<or> hd k \<noteq> CHR ''0'') \<and> n < 4294967295)"

definition index_of :: "string \<Rightarrow> int" where
  "index_of k = (case decimal 0 k of None \<Rightarrow> 0 | Some n \<Rightarrow> n)"

fun insert_index :: "string \<Rightarrow> js \<Rightarrow> (string \<times> js) list \<Rightarrow> (string \<times> js) list" where
  "insert_index k v [] = [(k, v)]"
| "insert_index k v (kv # kvs) =
     (if array_index (fst kv) \<and> index_of (fst kv) < index_of k then kv # insert_index k v kvs
      else (k, v) # kv # kvs)"

text \<open>
  The own property \<open>k\<close> is written: it keeps its place if the object has it; a new one
  goes to the end, or, when its name is an array index, to its place among the indices.
\<close>

definition own_put :: "string \<Rightarrow> js \<Rightarrow> (string \<times> js) list \<Rightarrow> (string \<times> js) list" where
  "own_put k v kvs =
     (if array_index k \<and> k \<notin> fst ` set kvs then insert_index k v kvs else AList.update k v kvs)"

text \<open>
  The setter of \<open>__proto__\<close> ignores a value that is neither an object nor \<open>null\<close>, and
  replaces the prototype of its receiver otherwise.
\<close>

fun replaces_prototype :: "js \<Rightarrow> bool" where
  "replaces_prototype JUndefined = False"
| "replaces_prototype (JBool b) = False"
| "replaces_prototype (JNum n) = False"
| "replaces_prototype (JStr s) = False"
| "replaces_prototype v = True"

text \<open>
  \<open>base[k] = v\<close> in strict mode: it throws on \<open>undefined\<close>, \<open>null\<close> and on a primitive
  value, and on an object it writes the own property \<open>k\<close>. Under the name \<open>__proto__\<close>, when
  the object has no own property of that name, the assignment calls the inherited setter.
  Objects are kept without a prototype of their own, arrays without named properties, and
  the built-in objects without their state: an assignment that replaces a prototype, or
  stores on an array or on a built-in object, is where the model stops.
\<close>

fun js_set :: "js \<Rightarrow> string \<Rightarrow> js \<Rightarrow> error + js" where
  "js_set JUndefined k v = Inl (TypeError (''Cannot set property '' @ k @ '' of undefined''))"
| "js_set JNull k v = Inl (TypeError (''Cannot set property '' @ k @ '' of null''))"
| "js_set (JBool b) k v = Inl (TypeError (''Cannot create property '' @ k @ '' on boolean''))"
| "js_set (JNum n) k v = Inl (TypeError (''Cannot create property '' @ k @ '' on number''))"
| "js_set (JStr s) k v = Inl (TypeError (''Cannot create property '' @ k @ '' on string''))"
| "js_set (JArr xs) k v = Inl (Unmodelled ''property stored on an array'')"
| "js_set (JObj kvs) k v =
     (if k = ''__proto__'' \<and> k \<notin> fst ` set kvs
      then (if replaces_prototype v then Inl (Unmodelled ''prototype of an object replaced'')
            else Inr (JObj kvs))
      else Inr (JObj (own_put k v kvs)))"
| "js_set (JInherited n) k v = Inl (Unmodelled ''property stored on a built-in object'')"

text \<open>
  Modelled from the spec: \<open>util.deepCopy\<close> (\<open>util.js\<close> is not among the sources) returns a
  deep copy of its argument. The values of this model are immutable trees, so the copy
  of a tree is the tree.
\<close>

definition deepCopy :: "js \<Rightarrow> js" where
  "deepCopy v = v"

definition conditional_key :: "string \<Rightarrow> bool" where
  "conditional_key k = (k = ''if'' \<or> k = ''then'' \<or> k = ''else'')"

text \<open>The \<open>forEach\<close> inside the loop of \<open>_preprocessProperty\<close>: every key of the current
  level but \<open>if\<close>, \<open>then\<close> and \<open>else\<close> is copied into \<open>newObj\<close>.\<close>

definition copy_fields :: "js \<Rightarrow> (string \<times> js) list \<Rightarrow> (string \<times> js) list" where
  "copy_fields property newObj =
     (case Object_keys property of
        Inl e \<Rightarrow> newObj
      | Inr ks \<Rightarrow>
          fold (\<lambda>k acc. if conditional_key k then acc else AList.update k (js_prop property k) acc)
            ks newObj)"

lemma size_obj_get: "size (obj_get kvs k) < size (JObj kvs)"
  by (induction kvs) (auto simp: obj_get_def split: option.splits)

text \<open>
  The \<open>while (property)\<close> loop. Only an object can carry an \<open>if\<close>: on any other truthy
  value the loop copies the keys there are and breaks, on a falsy one it ends.
\<close>

function (sequential) preprocess_loop ::
  "env \<Rightarrow> (string \<times> js) list \<Rightarrow> js \<Rightarrow> (string \<times> js) list \<Rightarrow> error + (string \<times> js) list" where
  "preprocess_loop E contextData (JObj kvs) newObj =
     (if \<not> truthy (obj_get kvs ''if'') then Inr (copy_fields (JObj kvs) newObj)
      else (case resolveConditional E contextData (obj_get kvs ''if'') of
              Inl e \<Rightarrow> Inl e
            | Inr r \<Rightarrow>
                preprocess_loop E contextData
                  (obj_get kvs (if truthy r then ''then'' else ''else''))
                  (copy_fields (JObj kvs) newObj)))"
| "preprocess_loop E contextData property newObj =
     (if truthy property then Inr (copy_fields property newObj) else Inr newObj)"
  by pat_completeness auto
termination
  by (relation "measure (\<lambda>(E, contextData, property, newObj). size property)")
     (auto simp: size_obj_get [simplified])

text \<open>\<open>SystemStats.prototype._preprocessProperty\<close>.\<close>

definition preprocessProperty :: "env \<Rightarrow> (string \<times> js) list \<Rightarrow> js \<Rightarrow> error + js" where
  "preprocessProperty E contextData property =
     (case js_get property ''if'' of
        Inl e \<Rightarrow> Inl e
      | Inr c \<Rightarrow>
          if truthy c
          then (case preprocess_loop E contextData property [] of
                  Inl e \<Rightarrow> Inl e
                | Inr newObj \<Rightarrow> Inr (deepCopy (JObj newObj)))
          else Inr (deepCopy property))"

text \<open>The conditional blocks of a property: the \<open>if\<close> of every level of its
  \<open>then\<close>/\<open>else\<close> tree.\<close>

function (sequential) if_blocks :: "js \<Rightarrow> js list" where
  "if_blocks (JObj kvs) =
     (if truthy (obj_get kvs ''if'')
      then obj_get kvs ''if'' # if_blocks (obj_get kvs ''then'') @ if_blocks (obj_get kvs ''else'')
      else [])"
| "if_blocks property = []"
  by pat_completeness auto
termination
  by (relation "measure size") (auto simp: size_obj_get [simplified])

text \<open>\<open>SystemStats.prototype._renderProperty\<close>: a truthy \<open>key\<close> is replaced by its
  rendering against the context.\<close>

definition renderProperty :: "env \<Rightarrow> (string \<times> js) list \<Rightarrow> js \<Rightarrow> error + js" where
  "renderProperty E contextData property =
     (if truthy (js_prop property ''key'')
      then (case render E (js_prop property ''key'') (JObj contextData) of
              Inl e \<Rightarrow> Inl e
            | Inr s \<Rightarrow> js_set property ''key'' (JStr s))
      else Inr property)"

section \<open>Normalization options\<close>

text \<open>\<open>s.split(sep)\<close> for a string separator: an empty separator splits into the
  characters, any other cuts at each occurrence from the left.\<close>

function split_at :: "string \<Rightarrow> string \<Rightarrow> string \<Rightarrow> string list" where
  "split_at sep piece [] = [piece]"
| "split_at sep piece (c # cs) =
     (if sep \<noteq> [] \<and> take (length sep) (c # cs) = sep
      then piece # split_at sep [] (drop (length sep) (c # cs))
      else split_at sep (piece @ [c]) cs)"
  by pat_completeness auto
termination
  by (relation "measure (\<lambda>(sep, piece, rest). length rest)") auto

definition js_split :: "string \<Rightarrow> string \<Rightarrow> string list" where
  "js_split s sep = (if sep = [] then map (\<lambda>c. [c]) s else split_at sep [] s)"

text \<open>\<open>SystemStats.prototype._splitKey\<close>: the pair of \<open>rootKey\<close> and \<open>childKey\<close>. A key that
  is not a string has no \<open>split\<close> method.\<close>

fun splitKey :: "env \<Rightarrow> js \<Rightarrow> error + js \<times> js" where
  "splitKey E (JStr s) =
     (let splitKeys = js_split s (STATS_KEY_SEP E) in
      Inr (case splitKeys of [] \<Rightarrow> JUndefined | r # rest \<Rightarrow> JStr r,
           if length (tl splitKeys) > 0 then JStr (join (STATS_KEY_SEP E) (tl splitKeys))
           else JUndefined))"
| "splitKey E JUndefined = Inl (TypeError ''Cannot read property split of undefined'')"
| "splitKey E JNull = Inl (TypeError ''Cannot read property split of null'')"
| "splitKey E v = Inl (TypeError ''key.split is not a function'')"

definition defaultTags :: "(string \<times> js) list" where
  "defaultTags = [(''name'', JObj [(''pattern'', JStr ''(.*)''), (''group'', JNum 1)])]"

text \<open>\<open>Object.assign(target, source)\<close> on an object \<open>target\<close>: the own properties of the
  source are written in its key order; \<open>undefined\<close> and \<open>null\<close> contribute nothing.\<close>

definition Object_assign :: "(string \<times> js) list \<Rightarrow> js \<Rightarrow> (string \<times> js) list" where
  "Object_assign target source =
     (case Object_keys source of
        Inl e \<Rightarrow> target
      | Inr ks \<Rightarrow> fold (\<lambda>k acc. AList.update k (js_prop source k) acc) ks target)"

text \<open>\<open>typeof v === 'object'\<close>.\<close>

fun is_object :: "js \<Rightarrow> bool" where
  "is_object JNull = True"
| "is_object (JArr xs) = True"
| "is_object (JObj kvs) = True"
| "is_object (JInherited n) = (n = ''__proto__'')"
| "is_object v = False"

definition on_value :: "error + 'a \<Rightarrow> ('a \<Rightarrow> error + 'b) \<Rightarrow> error + 'b" where
  "on_value r f = (case r of Inl e \<Rightarrow> Inl e | Inr v \<Rightarrow> f v)"

text \<open>
  The object literal \<open>options\<close> of \<open>_processData\<close>, its members evaluated in the order
  they are written. \<open>thisTags\<close> is \<open>this.tags\<close> and \<open>k\<close> the parameter \<open>key\<close>.
\<close>

definition normalize_options ::
  "env \<Rightarrow> properties \<Rightarrow> js \<Rightarrow> js \<Rightarrow> string \<Rightarrow> error + options" where
  "normalize_options E P thisTags property k =
     (let addKeysByTagIsObject =
            (truthy (js_prop property ''addKeysByTag'') \<and> is_object (js_prop property ''addKeysByTag''))
      in
      on_value (splitKey E (js_prop property ''key'')) (\<lambda>(rootKey, childKey).
      on_value (js_get (p_global P) ''filterKeys'') (\<lambda>globalFilterKeys.
      on_value (js_get (p_global P) ''renameKeys'') (\<lambda>globalRenameKeys.
      on_value (js_get (p_global P) ''formatTimestamps'') (\<lambda>globalFormatTimestamps.
      on_value (js_get globalFormatTimestamps ''keys'') (\<lambda>formatTimestampsKeys.
      on_value (if addKeysByTagIsObject then Inr (js_prop property ''addKeysByTag'')
                else js_get (p_global P) ''addKeysByTag'') (\<lambda>tagOpts.
      Inr \<lparr> key = childKey,
            filterByKeys =
              (if truthy (js_prop property ''filterKeys'')
               then [js_prop property ''filterKeys'', globalFilterKeys] else [globalFilterKeys]),
            renameKeysByPattern =
              (if truthy (js_prop property ''renameKeys'')
               then [js_prop property ''renameKeys'', globalRenameKeys] else [globalRenameKeys]),
            convertArrayToMap = js_prop property ''convertArrayToMap'',
            includeFirstEntry = js_prop property ''includeFirstEntry'',
            formatTimestamps = formatTimestampsKeys,
            runCustomFunctions = js_prop property ''runFunctions'',
            addKeysByTag =
              \<lparr> tags =
                  (if truthy (js_prop property ''addKeysByTag'')
                   then JObj (Object_assign defaultTags thisTags) else JObj defaultTags),
                definitions = p_definitions P,
                opts = tagOpts \<rparr>,
            propertyKey = k \<rparr>)))))))"

text \<open>\<open>SystemStats.prototype._processData\<close>.\<close>

definition processData ::
  "env \<Rightarrow> properties \<Rightarrow> js \<Rightarrow> js \<Rightarrow> js \<Rightarrow> string \<Rightarrow> error + js" where
  "processData E P thisTags property data k =
     on_value (normalize_options E P thisTags property k) (\<lambda>options.
       if js_prop property ''normalize'' = JBool False then Inr data
       else normalize_data E data options)"

section \<open>The final reshape of collect\<close>

text \<open>
  The last \<open>then\<close> of \<open>collect\<close> reads names of the stats document in two object literals
  of the program, \<open>this.collectedData\<close> and \<open>data\<close>. Such a read finds the own property of
  that name, or else the member of that name that the object inherits from
  \<open>Object.prototype\<close>, or else \<open>undefined\<close>.
\<close>

definition literal_get :: "(string \<times> js) list \<Rightarrow> string \<Rightarrow> js" where
  "literal_get kvs k =
     (case map_of kvs k of
        Some v \<Rightarrow> v
      | None \<Rightarrow> if k \<in> set Object_prototype_names then JInherited k else JUndefined)"

text \<open>
  One round of the second \<open>forEach\<close>: a stat with a \<open>structure\<close> that is not a folder is
  stored into what \<open>data[parentKey]\<close> reads and deleted from the top level. A parent that
  is an own property of \<open>data\<close> is mutated in place, so it keeps its position.
\<close>

definition relocate :: "js \<Rightarrow> string \<Rightarrow> (string \<times> js) list \<Rightarrow> error + (string \<times> js) list" where
  "relocate statsDoc k data =
     (let s = js_prop statsDoc k;
          stat = (if truthy s then s else JObj []);
          structure = js_prop stat ''structure''
      in
      if truthy structure \<and> \<not> truthy (js_prop structure ''folder'')
      then (let parentKey = ToString (js_prop structure ''parentKey'') in
            case js_set (literal_get data parentKey) k (literal_get data k) of
              Inl e \<Rightarrow> Inl e
            | Inr parent \<Rightarrow> Inr (AList.delete k (AList.update parentKey parent data)))
      else Inr data)"

fun relocate_all :: "js \<Rightarrow> string list \<Rightarrow> (string \<times> js) list \<Rightarrow> error + (string \<times> js) list" where
  "relocate_all statsDoc [] data = Inr data"
| "relocate_all statsDoc (k # ks) data =
     (case relocate statsDoc k data of
        Inl e \<Rightarrow> Inl e
      | Inr data' \<Rightarrow> relocate_all statsDoc ks data')"

text \<open>
  The first \<open>forEach\<close>: \<open>data[key] = this.collectedData[key]\<close> for every key of \<open>stats\<close>.
  Under the key \<open>__proto__\<close> the read yields the prototype of \<open>collectedData\<close> and the
  assignment hands it to the setter, which makes it the prototype of \<open>data\<close>: as long as
  \<open>collectedData\<close> has the prototype of an object literal, nothing changes.
\<close>

definition ordered_data :: "string list \<Rightarrow> (string \<times> js) list \<Rightarrow> (string \<times> js) list" where
  "ordered_data ks collected =
     fold (\<lambda>k data. if k = ''__proto__'' then data else own_put k (literal_get collected k) data)
       ks []"

text \<open>
  The body of the last \<open>then\<close>, on the stats document and \<open>this.collectedData\<close>. An entry
  \<open>__proto__\<close> of \<open>collectedData\<close> stands for an assignment
  \<open>this.collectedData[key] = ...\<close> under that key, which in JavaScript creates no property
  and replaces the prototype of \<open>collectedData\<close>: the model stops there.
\<close>

definition reshape :: "js \<Rightarrow> (string \<times> js) list \<Rightarrow> error + js" where
  "reshape statsDoc collected =
     (if ''__proto__'' \<in> fst ` set collected
      then Inl (Unmodelled ''prototype of collectedData replaced'')
      else (case Object_keys statsDoc of
              Inl e \<Rightarrow> Inl e
            | Inr ks \<Rightarrow>
                (let data = ordered_data ks collected in
                 case relocate_all statsDoc (map fst data) data of
                   Inl e \<Rightarrow> Inl e
                 | Inr data' \<Rightarrow> Inr (JObj data'))))"

section \<open>The collector and its promises\<close>

text \<open>
  JavaScript runs one synchronous block to its end; a promise callback runs later, and a
  load completes when the loader calls back. The state of the model is the \<open>SystemStats\<close>
  instance together with the promises that are pending:
  \<^item> \<open>jobs\<close>: the loads in flight, one per \<open>loadEndpoint\<close> call that has not called back;
  \<^item> \<open>live\<close>: the \<open>Promise.all\<close> joins that are neither fulfilled nor rejected, by group
    (the context phase number, or the stats properties);
  \<^item> \<open>stage\<close>: the join that the promise chain of \<open>collect\<close> waits for;
  \<^item> \<open>result\<close>: the state of the promise that \<open>collect\<close> returned;
  \<^item> \<open>logs\<close>: the lines written with \<open>logger.error\<close>;
  \<^item> \<open>history\<close>: a record of the run that no step reads: an entry of a group began (its
    property was resolved against the context of that moment, and this is the resolved
    form), a phase published its results into the context.
  The order in which the loads complete belongs to the loader: it is the schedule, a
  parameter of \<open>collect\<close>. The callbacks that one completion makes runnable run before the
  next load completes.
\<close>

datatype group = Phase nat | Stats

record job =
  jgroup :: group
  jkey :: string
  jprop :: js
  jendpoint :: js

datatype outcome = Pending | Resolved js | Rejected error

datatype stage = Starting | WaitFor group | Done

datatype event = Began group string js | Published group

record sys =
  contextData :: "(string \<times> js) list"
  collectedData :: "(string \<times> js) list"
  this_tags :: js
  logs :: "string list"
  jobs :: "job list"
  live :: "group list"
  stage :: stage
  result :: outcome
  history :: "event list"

fun show_error :: "error \<Rightarrow> string" where
  "show_error (Error m) = ''Error: '' @ m"
| "show_error (TypeError m) = ''TypeError: '' @ m"
| "show_error (Unmodelled m) = ''Unmodelled: '' @ m"

text \<open>The line that the \<open>catch\<close> of \<open>_processProperty\<close> logs.\<close>

definition property_error_message :: "string \<Rightarrow> js \<Rightarrow> error \<Rightarrow> string" where
  "property_error_message k property err =
     ''Error: SystemStats._processProperty: '' @ k @ '' ('' @ ToString (js_prop property ''key'')
       @ ''): '' @ show_error err"

definition is_folder :: "js \<Rightarrow> bool" where
  "is_folder property =
     (truthy (js_prop property ''structure'')
      \<and> js_prop (js_prop property ''structure'') ''folder'' = JBool True)"

text \<open>
  The synchronous part of \<open>_processProperty(key, property)\<close> for an entry of group \<open>g\<close>. It
  throws (\<open>Inl\<close>), or returns a promise: already fulfilled for a disabled property and for
  a folder, already rejected when the executor of \<open>_loadData\<close> throws in \<open>_splitKey\<close> (the
  failure is returned with the state), pending on a load otherwise.
\<close>

definition processProperty_begin ::
  "env \<Rightarrow> group \<Rightarrow> string \<Rightarrow> js \<Rightarrow> sys \<Rightarrow> error + sys \<times> (string \<times> js \<times> error) list" where
  "processProperty_begin E g k property0 st =
     on_value (preprocessProperty E (contextData st) property0) (\<lambda>preprocessed.
     on_value (renderProperty E (contextData st) preprocessed) (\<lambda>property.
       (let st' = st\<lparr>history := history st @ [Began g k property]\<rparr> in
        if truthy (js_prop property ''disabled'') then Inr (st', [])
        else if is_folder property
        then Inr (st'\<lparr>collectedData := AList.update k (JObj []) (collectedData st')\<rparr>, [])
        else (case splitKey E (js_prop property ''key'') of
                Inl e \<Rightarrow> Inr (st', [(k, property, e)])
              | Inr (rootKey, childKey) \<Rightarrow>
                  Inr (st'\<lparr>jobs := jobs st'
                          @ [\<lparr>jgroup = g, jkey = k, jprop = property, jendpoint = rootKey\<rparr>]\<rparr>,
                       [])))))"

text \<open>\<open>Object.keys(doc).map(key => this._processProperty(key, doc[key]))\<close>: the state
  changes made before a throw stay; without a throw the rejected entries are returned.\<close>

fun processProperties ::
  "env \<Rightarrow> group \<Rightarrow> js \<Rightarrow> string list \<Rightarrow> sys \<Rightarrow> sys \<times> (error + (string \<times> js \<times> error) list)" where
  "processProperties E g doc [] st = (st, Inr [])"
| "processProperties E g doc (k # ks) st =
     (case processProperty_begin E g k (js_prop doc k) st of
        Inl e \<Rightarrow> (st, Inl e)
      | Inr (st1, failed1) \<Rightarrow>
          (case processProperties E g doc ks st1 of
             (st2, Inl e) \<Rightarrow> (st2, Inl e)
           | (st2, Inr failed2) \<Rightarrow> (st2, Inr (failed1 @ failed2))))"

text \<open>The synchronous part of \<open>_processContext\<close> for phase \<open>i\<close>, up to the \<open>Promise.all\<close>.\<close>

definition processContext ::
  "env \<Rightarrow> nat \<Rightarrow> js \<Rightarrow> sys \<Rightarrow> sys \<times> (error + (string \<times> js \<times> error) list)" where
  "processContext E i contextDoc st =
     (case Object_keys contextDoc of
        Inl e \<Rightarrow> (st, Inl e)
      | Inr ks \<Rightarrow> processProperties E (Phase i) contextDoc ks st)"

text \<open>
  The calls \<open>this._processContext(contextData[i])\<close> of \<open>_computeContextData\<close>, for
  \<open>i = 0\<close> and then inside the \<open>for\<close> loop: each call is an argument expression, evaluated
  when the loop runs. The joins created are returned with their rejected entries.
\<close>

fun processPhases ::
  "env \<Rightarrow> nat \<Rightarrow> js list \<Rightarrow> sys
     \<Rightarrow> sys \<times> (group \<times> (string \<times> js \<times> error) list) list \<times> error option" where
  "processPhases E i [] st = (st, [], None)"
| "processPhases E i (c # cs) st =
     (case processContext E i c st of
        (st1, Inl e) \<Rightarrow> (st1, [], Some e)
      | (st1, Inr failed) \<Rightarrow>
          (case processPhases E (Suc i) cs st1 of
             (st2, created, err) \<Rightarrow> (st2, (Phase i, failed) # created, err)))"

text \<open>
  \<open>SystemStats.prototype._computeContextData\<close>, its synchronous run: the state, the joins
  created, and the error thrown or the join whose promise is returned (\<open>None\<close> for
  \<open>Promise.resolve()\<close>). The promise returned is the one of the first phase.
\<close>

definition computeContextData ::
  "env \<Rightarrow> js \<Rightarrow> sys
     \<Rightarrow> sys \<times> (group \<times> (string \<times> js \<times> error) list) list \<times> (error + group option)" where
  "computeContextData E contextDoc st =
     (case contextDoc of
        JArr phases \<Rightarrow>
          (case processPhases E 0 phases st of
             (st1, created, Some e) \<Rightarrow> (st1, created, Inl e)
           | (st1, created, None) \<Rightarrow>
               (st1, created, Inr (if phases = [] then None else Some (Phase 0))))
      | _ \<Rightarrow>
          if truthy contextDoc
          then (case processContext E 0 contextDoc st of
                  (st1, Inl e) \<Rightarrow> (st1, [], Inl e)
                | (st1, Inr failed) \<Rightarrow> (st1, [(Phase 0, failed)], Inr (Some (Phase 0))))
          else (st, [], Inr None))"

text \<open>\<open>SystemStats.prototype._computePropertiesData\<close>, its synchronous run.\<close>

definition computePropertiesData ::
  "env \<Rightarrow> js \<Rightarrow> sys \<Rightarrow> sys \<times> (error + (string \<times> js \<times> error) list)" where
  "computePropertiesData E statsDoc st =
     (case Object_keys statsDoc of
        Inl e \<Rightarrow> (st, Inl e)
      | Inr ks \<Rightarrow> processProperties E Stats statsDoc ks st)"

subsection \<open>Promise reactions\<close>

text \<open>The \<open>then\<close> of \<open>_processContext\<close>: the collected data is published into the context
  and \<open>collectedData\<close> starts again empty.\<close>

definition publish :: "group \<Rightarrow> sys \<Rightarrow> sys" where
  "publish g st =
     st\<lparr>contextData := Object_assign (contextData st) (JObj (collectedData st)),
        collectedData := [],
        history := history st @ [Published g]\<rparr>"

text \<open>The \<open>catch\<close> of \<open>collect\<close>.\<close>

definition reject_collect :: "error \<Rightarrow> sys \<Rightarrow> sys" where
  "reject_collect e st =
     st\<lparr>logs := logs st @ [''Error: SystemStats.collect: '' @ show_error e],
        stage := Done, result := Rejected e\<rparr>"

text \<open>The last \<open>then\<close> of \<open>collect\<close>.\<close>

definition finishStats :: "properties \<Rightarrow> sys \<Rightarrow> sys" where
  "finishStats P st =
     (case reshape (p_stats P) (collectedData st) of
        Inl e \<Rightarrow> reject_collect e st
      | Inr data \<Rightarrow> st\<lparr>stage := Done, result := Resolved data\<rparr>)"

definition log_failures :: "(string \<times> js \<times> error) list \<Rightarrow> sys \<Rightarrow> sys" where
  "log_failures failed st =
     st\<lparr>logs := logs st @ map (\<lambda>(k, property, e). property_error_message k property e) failed\<rparr>"

definition no_jobs_of :: "group \<Rightarrow> sys \<Rightarrow> bool" where
  "no_jobs_of g st = (filter (\<lambda>j. jgroup j = g) (jobs st) = [])"

text \<open>
  The second \<open>then\<close> of \<open>collect\<close>: the stats properties start, and their join is settled
  as far as it can be at once (an entry already rejected rejects it, no load in flight
  fulfils it).
\<close>

definition startStats :: "env \<Rightarrow> properties \<Rightarrow> sys \<Rightarrow> sys" where
  "startStats E P st =
     (case computePropertiesData E (p_stats P) st of
        (st1, Inl e) \<Rightarrow> reject_collect e st1
      | (st1, Inr failed) \<Rightarrow>
          if failed \<noteq> [] then reject_collect (snd (snd (hd failed))) (log_failures failed st1)
          else if no_jobs_of Stats st1 then finishStats P st1
          else st1\<lparr>live := live st1 @ [Stats], stage := WaitFor Stats\<rparr>)"

text \<open>A context join right after the block that created it: rejected by an entry already
  rejected, fulfilled (and published) when no load is in flight for it, live otherwise.\<close>

definition settle_phase :: "group \<times> (string \<times> js \<times> error) list \<Rightarrow> sys \<Rightarrow> sys" where
  "settle_phase gf st =
     (if snd gf \<noteq> [] then log_failures (snd gf) st
      else if no_jobs_of (fst gf) st then publish (fst gf) st
      else st\<lparr>live := live st @ [fst gf]\<rparr>)"

text \<open>
  What follows the synchronous run of \<open>_computeContextData\<close> inside the first \<open>then\<close> of
  \<open>collect\<close>: the joins just created are settled, and the chain goes on with the error
  thrown, with the stats properties, or waits for the join whose promise was returned.
\<close>

definition after_context ::
  "env \<Rightarrow> properties \<Rightarrow> (group \<times> (string \<times> js \<times> error) list) list \<Rightarrow> error + group option
     \<Rightarrow> sys \<Rightarrow> sys" where
  "after_context E P created r st0 =
     (let st = fold settle_phase created st0 in
      case r of
        Inl e \<Rightarrow> reject_collect e st
      | Inr None \<Rightarrow> startStats E P st
      | Inr (Some g) \<Rightarrow>
          (case map_of created g of
             None \<Rightarrow> st
           | Some failed \<Rightarrow>
               if failed \<noteq> [] then reject_collect (snd (snd (hd failed))) st
               else if g \<in> set (live st) then st\<lparr>stage := WaitFor g\<rparr>
               else startStats E P st))"

subsection \<open>A load completes\<close>

definition default_items :: "(string \<times> js) list \<Rightarrow> (string \<times> js) list" where
  "default_items payload =
     (if truthy (obj_get payload ''items'') then payload
      else AList.update ''items'' (JArr []) payload)"

text \<open>
  The callback of \<open>_loadData\<close> followed by the \<open>then\<close> of \<open>_processProperty\<close> for the
  load \<open>j\<close>: the loader's error, or the payload with its \<open>items\<close> defaulted and handed to
  \<open>_processData\<close>.
\<close>

definition load_and_process :: "env \<Rightarrow> properties \<Rightarrow> js \<Rightarrow> job \<Rightarrow> error + js" where
  "load_and_process E P thisTags j =
     on_value (loadEndpoint E (jendpoint j) (js_prop (jprop j) ''keyArgs''))
       (\<lambda>payload. processData E P thisTags (jprop j) (JObj (default_items payload)) (jkey j))"

text \<open>
  The load \<open>j\<close> completes: its data is stored under its key, or its error is logged by
  the \<open>catch\<close> of \<open>_processProperty\<close> and handed on as it is.
\<close>

definition complete :: "env \<Rightarrow> properties \<Rightarrow> job \<Rightarrow> sys \<Rightarrow> sys \<times> error option" where
  "complete E P j st =
     (case load_and_process E P (this_tags st) j of
        Inl err \<Rightarrow>
          (st\<lparr>logs := logs st @ [property_error_message (jkey j) (jprop j) err]\<rparr>, Some err)
      | Inr v \<Rightarrow> (st\<lparr>collectedData := AList.update (jkey j) v (collectedData st)\<rparr>, None))"

definition join_fulfilled :: "env \<Rightarrow> properties \<Rightarrow> group \<Rightarrow> sys \<Rightarrow> sys" where
  "join_fulfilled E P g st =
     (case g of
        Phase i \<Rightarrow> (if stage st = WaitFor g then startStats E P (publish g st) else publish g st)
      | Stats \<Rightarrow> (if stage st = WaitFor g then finishStats P st else st))"

definition join_rejected :: "group \<Rightarrow> error \<Rightarrow> sys \<Rightarrow> sys" where
  "join_rejected g e st = (if stage st = WaitFor g then reject_collect e st else st)"

text \<open>The load at position \<open>i\<close> of the loads in flight completes.\<close>

definition step :: "env \<Rightarrow> properties \<Rightarrow> nat \<Rightarrow> sys \<Rightarrow> sys" where
  "step E P i st =
     (if i < length (jobs st)
      then (let j = jobs st ! i;
                g = jgroup j;
                (st1, failure) = complete E P j (st\<lparr>jobs := take i (jobs st) @ drop (Suc i) (jobs st)\<rparr>)
            in
            if g \<notin> set (live st1) then st1
            else (case failure of
                    Some e \<Rightarrow> join_rejected g e (st1\<lparr>live := removeAll g (live st1)\<rparr>)
                  | None \<Rightarrow>
                      if no_jobs_of g st1
                      then join_fulfilled E P g (st1\<lparr>live := removeAll g (live st1)\<rparr>)
                      else st1))
      else st)"

subsection \<open>collect\<close>

definition new_SystemStats :: sys where
  "new_SystemStats =
     \<lparr>contextData = [], collectedData = [], this_tags = JObj [], logs = [], jobs = [],
      live = [], stage = Starting, result = Pending, history = []\<rparr>"

text \<open>
  \<open>SystemStats.prototype.collect\<close> up to the first point where it has to wait for a
  load. The host and the connection options go to the loader unread; \<open>options\<close> is the
  options object.
\<close>

definition collect_begin :: "env \<Rightarrow> properties \<Rightarrow> (string \<times> js) list \<Rightarrow> sys" where
  "collect_begin E P options =
     (let st0 = (if truthy (obj_get options ''tags'')
                 then new_SystemStats\<lparr>this_tags := obj_get options ''tags''\<rparr>
                 else new_SystemStats)
      in
      case auth E of
        Some e \<Rightarrow> reject_collect e st0
      | None \<Rightarrow>
          (case computeContextData E (p_context P) st0 of
             (st1, created, r) \<Rightarrow> after_context E P created r st1))"

text \<open>The state after the loads have completed in the order of the schedule.\<close>

definition collect_run :: "env \<Rightarrow> properties \<Rightarrow> (string \<times> js) list \<Rightarrow> nat list \<Rightarrow> sys" where
  "collect_run E P options schedule = fold (step E P) schedule (collect_begin E P options)"

text \<open>The promise of \<open>collect\<close> once those loads have completed.\<close>

definition collect :: "env \<Rightarrow> properties \<Rightarrow> (string \<times> js) list \<Rightarrow> nat list \<Rightarrow> outcome" where
  "collect E P options schedule = result (collect_run E P options schedule)"

section \<open>Vocabulary of the properties\<close>

text \<open>The names of the closed registry.\<close>

definition registered :: "string \<Rightarrow> bool" where
  "registered k = (k = ''deviceVersionGreaterOrEqual'' \<or> k = ''isModuleProvisioned'')"

text \<open>What the predicate registered under \<open>k\<close> does on the context, with the argument
  the block gives it.\<close>

definition predicate_on :: "env \<Rightarrow> (string \<times> js) list \<Rightarrow> js \<Rightarrow> string \<Rightarrow> error + js" where
  "predicate_on E c conditionalBlock k =
     (if k = ''deviceVersionGreaterOrEqual''
      then deviceVersionGreaterOrEqual E c (js_prop conditionalBlock k)
      else isModuleProvisioned c (js_prop conditionalBlock k))"




text \<open>
  Facts about a name in a state of the run. \<open>only_disabled\<close>: every entry of that
  name that began is an entry of the first context phase, the one \<open>collect\<close> waits for
  before it turns to the stats, or a stats property whose resolved form has \<open>disabled\<close>
  set. \<open>quiet\<close>: nothing is collected under the name and no load in flight will store
  under it. \<open>plain_names\<close>: no entry that began is named \<open>__proto__\<close>.
\<close>

definition only_disabled :: "string \<Rightarrow> sys \<Rightarrow> bool" where
  "only_disabled name st =
     (\<forall>g q. Began g name q \<in> set (history st) \<longrightarrow>
        g = Phase 0 \<or> g = Stats \<and> truthy (js_prop q ''disabled''))"

definition quiet :: "string \<Rightarrow> sys \<Rightarrow> bool" where
  "quiet name st =
     (obj_get (collectedData st) name = JUndefined \<and> (\<forall>j\<in>set (jobs st). jkey j \<noteq> name))"


text \<open>
  Where a collected value comes from. \<open>produced\<close>: the value \<open>v\<close> is the data of an entry
  named \<open>k\<close> that began: the empty mapping of a folder, or what the load of the entry,
  from the endpoint that \<open>_splitKey\<close> gives for its key, and \<open>_processData\<close> returned.
  \<open>jobs_ok\<close>: every load in flight belongs to an entry that began and is not
  disabled. \<open>data_ok\<close>: every own entry of a mapping of collected data is produced.
\<close>

definition produced :: "env \<Rightarrow> properties \<Rightarrow> js \<Rightarrow> event list \<Rightarrow> string \<Rightarrow> js \<Rightarrow> bool" where
  "produced E P thisTags hist k v =
     ((\<exists>g q. Began g k q \<in> set hist \<and> is_folder q \<and> v = JObj [])
      \<or> (\<exists>j. jkey j = k \<and> Began (jgroup j) k (jprop j) \<in> set hist
             \<and> (\<exists>c. splitKey E (js_prop (jprop j) ''key'') = Inr (jendpoint j, c))
             \<and> load_and_process E P thisTags j = Inr v))"

definition jobs_ok :: "env \<Rightarrow> sys \<Rightarrow> bool" where
  "jobs_ok E st =
     (\<forall>j\<in>set (jobs st). Began (jgroup j) (jkey j) (jprop j) \<in> set (history st)
          \<and> \<not> truthy (js_prop (jprop j) ''disabled'')
          \<and> (\<exists>c. splitKey E (js_prop (jprop j) ''key'') = Inr (jendpoint j, c)))"

definition data_ok :: "env \<Rightarrow> properties \<Rightarrow> sys \<Rightarrow> (string \<times> js) list \<Rightarrow> bool" where
  "data_ok E P st cd =
     (\<forall>k v. map_of cd k = Some v \<longrightarrow> produced E P (this_tags st) (history st) k v)"

text \<open>
  \<open>Inv\<close> is the invariant of the run from the moment the stats properties start: a
  tree that \<open>collect\<close> resolved with is the reshape of a mapping of collected data.
  \<open>inv_step\<close> says that a step keeps the invariant, the tags, and what began. Before
  that moment \<open>collect\<close> is \<open>waiting\<close> for the first context phase, unless it has
  \<open>rejected\<close>; \<open>keeps\<close> is what the processing of the context entries keeps, and \<open>Run\<close>
  is the invariant of the whole run.
\<close>

definition Inv :: "env \<Rightarrow> properties \<Rightarrow> string \<Rightarrow> sys \<Rightarrow> bool" where
  "Inv E P name st =
     ((only_disabled name st \<longrightarrow> quiet name st)
      \<and> jobs_ok E st
      \<and> data_ok E P st (collectedData st)
      \<and> (\<forall>t. result st = Resolved t \<longrightarrow>
            (\<exists>cd. reshape (p_stats P) cd = Inr t \<and> data_ok E P st cd
                 \<and> (only_disabled name st \<longrightarrow> obj_get cd name = JUndefined))))"


definition waiting :: "sys \<Rightarrow> bool" where
  "waiting st = ((stage st = Starting \<or> stage st = WaitFor (Phase 0)) \<and> result st = Pending)"

definition rejected :: "sys \<Rightarrow> bool" where
  "rejected st = (stage st = Done \<and> (\<exists>e. result st = Rejected e))"


definition Run :: "env \<Rightarrow> properties \<Rightarrow> string \<Rightarrow> sys \<Rightarrow> bool" where
  "Run E P name st =
     (waiting st \<and> jobs_ok E st \<and> data_ok E P st (collectedData st)
      \<or> rejected st \<or> Inv E P name st)"

section \<open>The sink data filter\<close>

text \<open>
  \<open>src/unnamed/part_001\<close> is the class \<open>DataFilter\<close>. The caller's data context and the
  copy that \<open>apply\<close> returns are objects of the JavaScript heap: the store below holds
  one tree per allocated object, an address is a position in it, and a container inside
  an object is reached by the path of keys that leads to it.
\<close>

record DataFilter =
  consumerConfig :: js
  blacklist :: "(string \<times> js) list"

text \<open>
  \<open>DataFilter.prototype._applyGlobalFilters\<close>. \<open>config.format\<close> is read only when the
  type is \<open>Splunk\<close>.
\<close>

definition applyGlobalFilters :: "DataFilter \<Rightarrow> error + DataFilter" where
  "applyGlobalFilters this =
     on_value (js_get (consumerConfig this) ''type'') (\<lambda>type.
       if type \<noteq> JStr ''Splunk''
       then Inr (this\<lparr>blacklist := Object_assign (blacklist this) (JObj [(''tmstats'', JBool True)])\<rparr>)
       else on_value (js_get (consumerConfig this) ''config'') (\<lambda>config.
            on_value (js_get config ''format'') (\<lambda>format.
              if format \<noteq> JStr ''legacy''
              then Inr (this\<lparr>blacklist :=
                          Object_assign (blacklist this) (JObj [(''tmstats'', JBool True)])\<rparr>)
              else Inr this)))"

text \<open>The constructor \<open>DataFilter(consumerConfig)\<close>.\<close>

definition new_DataFilter :: "js \<Rightarrow> error + DataFilter" where
  "new_DataFilter config =
     applyGlobalFilters \<lparr>consumerConfig = deepCopy config, blacklist = []\<rparr>"

text \<open>Whether a value has the own key \<open>k\<close>.\<close>

definition has_key :: "js \<Rightarrow> string \<Rightarrow> bool" where
  "has_key v k = (case Object_keys v of Inl e \<Rightarrow> False | Inr ks \<Rightarrow> k \<in> set ks)"

text \<open>
  Modelled from the spec: \<open>dataUtil.getDeepMatches(data, matchObj)\<close> (\<open>dataUtil.js\<close> is not
  among the sources) scans the data along the blacklist, nested mappings and sequences at
  every depth the blacklist describes, and collects the matches without mutating
  anything. A match is the container and the matching key; the container is given by its
  path below \<open>data\<close>. A key of the blacklist whose value is a mapping leads one level
  down; any other key of the blacklist names a key to delete. Data that is no container
  has no matches.
\<close>

fun getDeepMatches :: "js \<Rightarrow> js \<Rightarrow> (string list \<times> string) list"
  and getDeepMatches_keys :: "js \<Rightarrow> (string \<times> js) list \<Rightarrow> (string list \<times> string) list" where
  "getDeepMatches data (JObj matchObj) = getDeepMatches_keys data matchObj"
| "getDeepMatches data JUndefined = []"
| "getDeepMatches data JNull = []"
| "getDeepMatches data (JBool b) = []"
| "getDeepMatches data (JNum n) = []"
| "getDeepMatches data (JStr s) = []"
| "getDeepMatches data (JArr xs) = []"
| "getDeepMatches data (JInherited n) = []"
| "getDeepMatches_keys data [] = []"
| "getDeepMatches_keys data (m # rest) =
     (if has_key data (fst m)
      then (case snd m of
              JObj nested \<Rightarrow>
                map (\<lambda>pk. (fst m # fst pk, snd pk)) (getDeepMatches (js_prop data (fst m)) (snd m))
            | _ \<Rightarrow> [([], fst m)])
      else [])
     @ getDeepMatches_keys data rest"

text \<open>The container at the end of a path is replaced by its image under \<open>f\<close>.\<close>

fun update_at :: "string list \<Rightarrow> (js \<Rightarrow> js) \<Rightarrow> js \<Rightarrow> js" where
  "update_at [] f t = f t"
| "update_at (p # ps) f (JObj kvs) =
     JObj (map (\<lambda>kv. if fst kv = p then (fst kv, update_at ps f (snd kv)) else kv) kvs)"
| "update_at (p # ps) f (JArr xs) =
     JArr (map (\<lambda>iv. if string_of_nat (fst iv) = p then update_at ps f (snd iv) else snd iv)
             (enumerate 0 xs))"
| "update_at (p # ps) f t = t"

text \<open>\<open>delete container[k]\<close>: an object loses the key, an array keeps its length and has an
  empty slot, which reads as \<open>undefined\<close>.\<close>

fun delete_key :: "string \<Rightarrow> js \<Rightarrow> js" where
  "delete_key k (JObj kvs) = JObj (AList.delete k kvs)"
| "delete_key k (JArr xs) =
     JArr (map (\<lambda>iv. if string_of_nat (fst iv) = k then JUndefined else snd iv) (enumerate 0 xs))"
| "delete_key k t = t"

text \<open>The \<open>for\<close> loop of \<open>_applyBlacklist\<close>: from the end, every slot of an array whose
  type is \<open>undefined\<close> is spliced out.\<close>

fun reindex :: "js \<Rightarrow> js" where
  "reindex (JArr xs) = JArr (filter (\<lambda>x. x \<noteq> JUndefined) xs)"
| "reindex t = t"

text \<open>
  \<open>DataFilter.prototype._applyBlacklist(data)\<close> on the object at address \<open>c\<close>, where \<open>data\<close>
  is the container at \<open>path\<close>: all matches are deleted, then the containers of the matches
  are re-indexed. A container is an object of its own in JavaScript, so re-indexing one
  does not move another; on paths this is the order from the deepest container up.
\<close>

definition blacklisted :: "DataFilter \<Rightarrow> string list \<Rightarrow> js \<Rightarrow> js" where
  "blacklisted this path t =
     (let matches = getDeepMatches (fold (\<lambda>p v. js_prop v p) path t) (JObj (blacklist this));
          deleted = fold (\<lambda>m v. update_at (path @ fst m) (delete_key (snd m)) v) matches t;
          containers = rev (sort_key length (map fst matches))
      in fold (\<lambda>p v. update_at (path @ p) reindex v) containers deleted)"

definition applyBlacklist :: "DataFilter \<Rightarrow> js list \<Rightarrow> nat \<Rightarrow> string list \<Rightarrow> js list" where
  "applyBlacklist this h c path = h[c := blacklisted this path (h ! c)]"

text \<open>
  Modelled from the spec: \<open>util.deepCopy\<close> (\<open>util.js\<close> is not among the sources) returns a
  deep copy: a new object that shares nothing with its argument. \<open>deepCopy_alloc\<close> is the
  call on the object at address \<open>a\<close>: the store grows by the copy, at a fresh address.
\<close>

definition deepCopy_alloc :: "js list \<Rightarrow> nat \<Rightarrow> js list \<times> nat" where
  "deepCopy_alloc h a = (h @ [deepCopy (h ! a)], length h)"

text \<open>
  \<open>DataFilter.prototype.apply(dataCtx)\<close>, \<open>dataCtx\<close> being the object at address \<open>a\<close>: the
  filter after the call, the store after the call, and the address returned or the
  error thrown by \<open>dataCtxCopy.data\<close>.
\<close>

definition DataFilter_apply ::
  "DataFilter \<Rightarrow> js list \<Rightarrow> nat \<Rightarrow> DataFilter \<times> js list \<times> (error + nat)" where
  "DataFilter_apply this h a =
     (case deepCopy_alloc h a of
        (h1, dataCtxCopy) \<Rightarrow>
          (case js_get (h1 ! dataCtxCopy) ''data'' of
             Inl e \<Rightarrow> (this, h1, Inl e)
           | Inr data \<Rightarrow> (this, applyBlacklist this h1 dataCtxCopy [''data''], Inr dataCtxCopy)))"

text \<open>What \<open>apply\<close> makes of a data context, as a tree.\<close>

definition filtered :: "DataFilter \<Rightarrow> js \<Rightarrow> js" where
  "filtered this dataCtx = blacklisted this [''data''] (deepCopy dataCtx)"



section \<open>An example installation\<close>

text \<open>
  A loader that fails on the endpoint \<open>/fail\<close> and answers every other endpoint with a
  small mapping, versions compared as numbers, keys without templates, and a normalizer
  that returns its input.
\<close>

definition example_env :: env where
  "example_env =
     \<lparr>STATS_KEY_SEP = ''::'',
      compareVersionStrings =
        (\<lambda>v1 comparator v2.
           case (v1, v2) of
             (JNum a, JNum b) \<Rightarrow> Inr (b \<le> a)
           | _ \<Rightarrow> Inl (TypeError ''version1.split is not a function'')),
      render = (\<lambda>template view.
           case template of JStr s \<Rightarrow> Inr s | _ \<Rightarrow> Inl (TypeError ''Invalid template'')),
      normalize_data = (\<lambda>data options. Inr data),
      loadEndpoint = (\<lambda>endpoint keyArgs.
           if endpoint = JStr ''/fail'' then Inl (Error ''boom'') else Inr [(''endpoint'', endpoint)]),
      auth = None\<rparr>"

definition example_global :: js where
  "example_global =
     JObj [(''filterKeys'', JObj [(''exclude'', JArr [JStr ''kind'', JStr ''selfLink''])]),
           (''renameKeys'', JObj []),
           (''formatTimestamps'', JObj [(''keys'', JArr [JStr ''expirationDate''])]),
           (''addKeysByTag'', JObj [(''skip'', JArr [JStr ''members''])])]"

definition example_properties :: "js \<Rightarrow> js \<Rightarrow> properties" where
  "example_properties statsDoc contextDoc =
     \<lparr>p_stats = statsDoc, p_context = contextDoc, p_definitions = JObj [], p_global = example_global\<rparr>"



definition failing_stats :: js where
  "failing_stats =
     JObj [(''pools'', JObj [(''key'', JStr ''/mgmt/tm/ltm/pool'')]),
           (''virtualServers'', JObj [(''key'', JStr ''/fail'')])]"

definition two_phases :: js where
  "two_phases =
     JArr [JObj [(''deviceVersion'', JObj [(''key'', JStr ''/mgmt/tm/sys/version''),
                                          (''normalize'', JBool False)])],
           JObj [(''provisioning'', JObj [(''key'', JStr ''/mgmt/tm/sys/provision'')])]]"

definition two_phases_conditional :: js where
  "two_phases_conditional =
     JArr [JObj [(''deviceVersion'', JObj [(''key'', JStr ''/mgmt/tm/sys/version''),
                                          (''normalize'', JBool False)])],
           JObj [(''bashDisabled'',
                  JObj [(''if'', JObj [(''deviceVersionGreaterOrEqual'', JNum 14)]),
                        (''then'', JObj [(''key'', JStr ''/mgmt/tm/sys/db/systemauth.disablebash'')])])]]"


text \<open>A data context with a \<open>tmstats\<close> subtree.\<close>

definition example_dataCtx :: js where
  "example_dataCtx =
     JObj [(''data'', JObj [(''system'', JObj [(''hostname'', JStr ''bigip1'')]),
                            (''tmstats'', JObj [(''cpuInfoStat'', JArr [])])]),
           (''type'', JStr ''systemInfo'')]"



section \<open>Conditional blocks: properties\<close>

lemma registered_lookup:
  "registered k \<Longrightarrow> \<exists>f. CONDITIONAL_FUNCS k = Some f \<and> call_func E f c a =
      (if k = ''deviceVersionGreaterOrEqual'' then deviceVersionGreaterOrEqual E c a
       else isModuleProvisioned c a)"
  by (auto simp: registered_def CONDITIONAL_FUNCS_def)

lemma predicate_on_bool:
  "predicate_on E c b k = Inr v \<Longrightarrow> \<exists>t. v = JBool t"
  by (auto simp: predicate_on_def deviceVersionGreaterOrEqual_def isModuleProvisioned_def Let_def
      split: if_splits sum.splits)

lemma resolve_keys_step:
  "registered k \<Longrightarrow> resolve_keys E c b (k # ks) ret ivk =
     (if truthy ret
      then (case predicate_on E c b k of
              Inl e \<Rightarrow> (Inl e, ivk @ [k])
            | Inr v \<Rightarrow> resolve_keys E c b ks v (ivk @ [k]))
      else resolve_keys E c b ks ret ivk)"
  using registered_lookup [of k E c "js_prop b k"]
  by (auto simp: predicate_on_def)

lemma resolve_keys_falsy:
  "\<forall>k\<in>set ks. registered k \<Longrightarrow> \<not> truthy ret \<Longrightarrow> resolve_keys E c b ks ret ivk = (Inr ret, ivk)"
  by (induction ks arbitrary: ivk) (simp_all add: resolve_keys_step del: resolve_keys.simps(2))

lemma resolve_keys_all_true:
  "\<forall>k\<in>set ks. registered k \<and> predicate_on E c b k = Inr (JBool True) \<Longrightarrow>
     resolve_keys E c b ks (JBool True) ivk = (Inr (JBool True), ivk @ ks)"
  by (induction ks arbitrary: ivk) (simp_all add: resolve_keys_step del: resolve_keys.simps(2))

lemma resolve_keys_true_only:
  "\<forall>k\<in>set ks. registered k \<Longrightarrow>
   fst (resolve_keys E c b ks (JBool True) ivk) = Inr (JBool True) \<Longrightarrow>
     \<forall>k\<in>set ks. predicate_on E c b k = Inr (JBool True)"
proof (induction ks arbitrary: ivk)
  case Nil
  then show ?case by simp
next
  case (Cons k ks)
  have reg: "registered k" and regs: "\<forall>j\<in>set ks. registered j" using Cons.prems(1) by simp_all
  show ?case
  proof (cases "predicate_on E c b k")
    case (Inl e)
    with Cons.prems(2) reg show ?thesis by (simp add: resolve_keys_step del: resolve_keys.simps(2))
  next
    case (Inr v)
    then obtain t where v: "v = JBool t" using predicate_on_bool by blast
    show ?thesis
    proof (cases t)
      case True
      with Inr v Cons.prems(2) reg
      have "fst (resolve_keys E c b ks (JBool True) (ivk @ [k])) = Inr (JBool True)"
        by (simp add: resolve_keys_step del: resolve_keys.simps(2))
      from Cons.IH [OF regs this] Inr v True show ?thesis by simp
    next
      case False
      with Inr v Cons.prems(2) reg regs show ?thesis
        by (simp add: resolve_keys_step resolve_keys_falsy del: resolve_keys.simps(2))
    qed
  qed
qed

lemma resolve_keys_first_false:
  assumes "\<forall>j\<in>set (ks1 @ k # ks2). registered j"
    and "\<forall>j\<in>set ks1. predicate_on E c b j = Inr (JBool True)"
    and "predicate_on E c b k = Inr (JBool False)"
  shows "resolve_keys E c b (ks1 @ k # ks2) (JBool True) ivk = (Inr (JBool False), ivk @ ks1 @ [k])"
  using assms
proof (induction ks1 arbitrary: ivk)
  case Nil
  then show ?case by (simp add: resolve_keys_step resolve_keys_falsy del: resolve_keys.simps(2))
next
  case (Cons j ks1)
  then show ?case by (simp add: resolve_keys_step del: resolve_keys.simps(2))
qed

text \<open>
  C10. For a block whose keys all name registered predicates, \<open>_resolveConditional\<close>
  returns \<open>true\<close> exactly when every predicate returns \<open>true\<close> on the context. And when
  the predicates before some key have returned \<open>true\<close> and the one of that key returns
  \<open>false\<close>, the call returns \<open>false\<close> and the functions invoked are exactly the ones up to
  that key: no function of a later key runs, so none of them can raise.
\<close>

theorem resolveConditional_conjunction:
  assumes "Object_keys conditionalBlock = Inr ks" and "\<forall>k\<in>set ks. registered k"
  shows "(resolveConditional E c conditionalBlock = Inr (JBool True)
            \<longleftrightarrow> (\<forall>k\<in>set ks. predicate_on E c conditionalBlock k = Inr (JBool True)))
         \<and> (\<forall>ks1 k ks2. ks = ks1 @ k # ks2
               \<and> (\<forall>j\<in>set ks1. predicate_on E c conditionalBlock j = Inr (JBool True))
               \<and> predicate_on E c conditionalBlock k = Inr (JBool False)
             \<longrightarrow> resolveConditional E c conditionalBlock = Inr (JBool False)
                 \<and> invoked_predicates E c conditionalBlock = ks1 @ [k])"
proof (intro conjI allI impI)
  show "resolveConditional E c conditionalBlock = Inr (JBool True)
            \<longleftrightarrow> (\<forall>k\<in>set ks. predicate_on E c conditionalBlock k = Inr (JBool True))"
  proof
    assume "resolveConditional E c conditionalBlock = Inr (JBool True)"
    then have "fst (resolve_keys E c conditionalBlock ks (JBool True) []) = Inr (JBool True)"
      using assms(1) by (simp add: resolveConditional_def resolveConditional_run_def)
    from resolve_keys_true_only [OF assms(2) this]
    show "\<forall>k\<in>set ks. predicate_on E c conditionalBlock k = Inr (JBool True)" .
  next
    assume "\<forall>k\<in>set ks. predicate_on E c conditionalBlock k = Inr (JBool True)"
    with assms(2)
    have "\<forall>k\<in>set ks. registered k \<and> predicate_on E c conditionalBlock k = Inr (JBool True)"
      by simp
    from resolve_keys_all_true [OF this] assms(1)
    show "resolveConditional E c conditionalBlock = Inr (JBool True)"
      by (simp add: resolveConditional_def resolveConditional_run_def)
  qed
next
  fix ks1 k ks2
  assume h: "ks = ks1 @ k # ks2
               \<and> (\<forall>j\<in>set ks1. predicate_on E c conditionalBlock j = Inr (JBool True))
               \<and> predicate_on E c conditionalBlock k = Inr (JBool False)"
  then have reg: "\<forall>j\<in>set (ks1 @ k # ks2). registered j" using assms(2) by simp
  from resolve_keys_first_false [OF reg, of E c conditionalBlock "[]"] h
  have r: "resolve_keys E c conditionalBlock ks (JBool True) [] = (Inr (JBool False), ks1 @ [k])"
    by simp
  from r assms(1) show "resolveConditional E c conditionalBlock = Inr (JBool False)"
    by (simp add: resolveConditional_def resolveConditional_run_def)
  from r assms(1) show "invoked_predicates E c conditionalBlock = ks1 @ [k]"
    by (simp add: invoked_predicates_def resolveConditional_run_def)
qed

text \<open>
  The device is older than the version asked for and the context has no \<open>provisioning\<close>:
  the second predicate would raise, and it is never invoked.
\<close>

theorem resolveConditional_conjunction_witness:
  "resolveConditional example_env [(''deviceVersion'', JNum 12)]
     (JObj [(''deviceVersionGreaterOrEqual'', JNum 13), (''isModuleProvisioned'', JStr ''afm'')])
     = Inr (JBool False)
   \<and> invoked_predicates example_env [(''deviceVersion'', JNum 12)]
       (JObj [(''deviceVersionGreaterOrEqual'', JNum 13), (''isModuleProvisioned'', JStr ''afm'')])
     = [''deviceVersionGreaterOrEqual'']
   \<and> predicate_on example_env [(''deviceVersion'', JNum 12)]
       (JObj [(''deviceVersionGreaterOrEqual'', JNum 13), (''isModuleProvisioned'', JStr ''afm'')])
       ''isModuleProvisioned''
     = Inl (Error (''isModuleProvisioned: context has no property ''
                    @ apostrophe @ ''provisioning'' @ apostrophe))"
proof -
  let ?b = "JObj [(''deviceVersionGreaterOrEqual'', JNum 13), (''isModuleProvisioned'', JStr ''afm'')]"
  let ?c = "[(''deviceVersion'', JNum 12)]"
  have k: "Object_keys ?b = Inr [''deviceVersionGreaterOrEqual'', ''isModuleProvisioned'']"
    by simp
  have r: "\<forall>k\<in>set [''deviceVersionGreaterOrEqual'', ''isModuleProvisioned'']. registered k"
    by (simp add: registered_def)
  have f: "predicate_on example_env ?c ?b ''deviceVersionGreaterOrEqual'' = Inr (JBool False)"
    by (simp add: predicate_on_def deviceVersionGreaterOrEqual_def obj_get_def example_env_def
          js_prop_def)
  have p: "predicate_on example_env ?c ?b ''isModuleProvisioned''
     = Inl (Error (''isModuleProvisioned: context has no property ''
                    @ apostrophe @ ''provisioning'' @ apostrophe))"
    by (simp add: predicate_on_def isModuleProvisioned_def obj_get_def)
  from resolveConditional_conjunction [OF k r, of example_env ?c] f
  have "resolveConditional example_env ?c ?b = Inr (JBool False)
        \<and> invoked_predicates example_env ?c ?b = [] @ [''deviceVersionGreaterOrEqual'']"
    by (metis append_Nil empty_iff list.set(1))
  with p show ?thesis by simp
qed

lemma resolve_keys_unknown:
  assumes "\<forall>j\<in>set ks1. CONDITIONAL_FUNCS j \<noteq> None" and "CONDITIONAL_FUNCS k = None"
  shows "\<exists>e. fst (resolve_keys E c b (ks1 @ k # ks2) ret ivk) = Inl e \<and>
           (e = Error (''Unknown property in conditional block '' @ k)
            \<or> (\<exists>j\<in>set ks1. \<exists>f. CONDITIONAL_FUNCS j = Some f \<and> call_func E f c (js_prop b j) = Inl e))"
  using assms(1)
proof (induction ks1 arbitrary: ret ivk)
  case Nil
  then show ?case using assms(2) by simp
next
  case (Cons j ks1)
  then obtain f where f: "CONDITIONAL_FUNCS j = Some f" by auto
  have rest: "\<forall>i\<in>set ks1. CONDITIONAL_FUNCS i \<noteq> None" using Cons.prems by simp
  show ?case
  proof (cases "truthy ret")
    case False
    with f Cons.IH [OF rest, of ret ivk] show ?thesis by auto
  next
    case True
    show ?thesis
    proof (cases "call_func E f c (js_prop b j)")
      case (Inl e)
      with f True show ?thesis by auto
    next
      case (Inr v)
      with f True Cons.IH [OF rest, of v "ivk @ [j]"] show ?thesis by auto
    qed
  qed
qed

text \<open>
  C3 (amended). If some key of the block names neither a registered predicate nor a member
  that the registry object inherits from \<open>Object.prototype\<close>, the evaluation raises an error
  and returns no value. For the first such key the error is \<open>Unknown property in
  conditional block\<close> followed by the key, unless the function found for an earlier key has
  thrown: then that error is the one raised.
\<close>

theorem unknown_key_raises:
  assumes "Object_keys conditionalBlock = Inr (ks1 @ k # ks2)"
    and "\<forall>j\<in>set ks1. CONDITIONAL_FUNCS j \<noteq> None"
    and "CONDITIONAL_FUNCS k = None"
  shows "\<exists>e. resolveConditional E c conditionalBlock = Inl e \<and>
           (e = Error (''Unknown property in conditional block '' @ k)
            \<or> (\<exists>j\<in>set ks1. \<exists>f. CONDITIONAL_FUNCS j = Some f
                  \<and> call_func E f c (js_prop conditionalBlock j) = Inl e))"
  using resolve_keys_unknown [OF assms(2,3), of E c conditionalBlock ks2 "JBool True" "[]"] assms(1)
  by (simp add: resolveConditional_def resolveConditional_run_def)

theorem unknown_key_raises_witness:
  "resolveConditional example_env [(''deviceVersion'', JNum 12)]
     (JObj [(''deviceVersionGreaterOrEqual'', JNum 13), (''bogus'', JBool True)])
   = Inl (Error ''Unknown property in conditional block bogus'')"
proof -
  let ?b = "JObj [(''deviceVersionGreaterOrEqual'', JNum 13), (''bogus'', JBool True)]"
  have k: "Object_keys ?b = Inr ([''deviceVersionGreaterOrEqual''] @ ''bogus'' # [])" by simp
  have r: "\<forall>j\<in>set [''deviceVersionGreaterOrEqual'']. CONDITIONAL_FUNCS j \<noteq> None"
    by (simp add: CONDITIONAL_FUNCS_def)
  have u: "CONDITIONAL_FUNCS ''bogus'' = None"
    by (simp add: CONDITIONAL_FUNCS_def Object_prototype_names_def)
  from unknown_key_raises [OF k r u, of example_env "[(''deviceVersion'', JNum 12)]"]
  show ?thesis
    by (auto simp: CONDITIONAL_FUNCS_def deviceVersionGreaterOrEqual_def obj_get_def
          example_env_def js_prop_def)
qed

text \<open>
  The block names \<open>bogus\<close> after a registered predicate, and the context has no
  \<open>deviceVersion\<close>: the error raised is the one of the predicate, and it does not name
  \<open>bogus\<close>.
\<close>

theorem unknown_key_counterexample:
  "resolveConditional example_env []
     (JObj [(''deviceVersionGreaterOrEqual'', JNum 13), (''bogus'', JBool True)])
   = Inl (Error (''deviceVersionGreaterOrEqual: context has no property ''
                  @ apostrophe @ ''deviceVersion'' @ apostrophe))
   \<and> Error (''deviceVersionGreaterOrEqual: context has no property ''
                  @ apostrophe @ ''deviceVersion'' @ apostrophe)
      \<noteq> Error ''Unknown property in conditional block bogus''
   \<and> CONDITIONAL_FUNCS ''bogus'' = None"
  by (simp add: resolveConditional_def resolveConditional_run_def CONDITIONAL_FUNCS_def
        deviceVersionGreaterOrEqual_def obj_get_def Object_prototype_names_def apostrophe_def)

text \<open>
  A key that names a member of \<open>Object.prototype\<close> passes the test
  \<open>func === undefined\<close>: \<open>constructor\<close> and \<open>toString\<close> are called as if they were
  predicates, and each returns a truthy value.
\<close>

lemma inherited_member_accepted:
  "resolveConditional E c (JObj [(''constructor'', v)]) = Inr (JObj c)
   \<and> resolveConditional E c (JObj [(''toString'', v)]) = Inr (JStr ''[object Undefined]'')"
  by (simp add: resolveConditional_def resolveConditional_run_def CONDITIONAL_FUNCS_def
        Object_prototype_names_def)

section \<open>Resolving a property: properties\<close>

lemma copy_fields_keys:
  "fst ` set (copy_fields p acc) \<subseteq> fst ` set acc \<union> {k. \<not> conditional_key k}"
proof -
  have "fst ` set (fold (\<lambda>k a. if conditional_key k then a else AList.update k (js_prop p k) a) ks acc)
          \<subseteq> fst ` set acc \<union> {k. \<not> conditional_key k}" for ks
  proof (induction ks arbitrary: acc)
    case Nil
    then show ?case by simp
  next
    case (Cons a ks)
    show ?case
    proof (cases "conditional_key a")
      case True
      with Cons.IH [of acc] show ?thesis by simp
    next
      case False
      have "fst ` set (AList.update a (js_prop p a) acc) \<subseteq> fst ` set acc \<union> {k. \<not> conditional_key k}"
        using False by (auto simp: dom_update)
      with Cons.IH [of "AList.update a (js_prop p a) acc"] False show ?thesis by auto
    qed
  qed
  then show ?thesis by (auto simp: copy_fields_def split: sum.splits)
qed

lemma preprocess_loop_keys:
  "preprocess_loop E c p acc = Inr n \<Longrightarrow> fst ` set n \<subseteq> fst ` set acc \<union> {k. \<not> conditional_key k}"
proof (induction E c p acc arbitrary: n rule: preprocess_loop.induct)
  case (1 E c kvs acc)
  show ?case
  proof (cases "truthy (obj_get kvs ''if'')")
    case False
    with "1.prems" copy_fields_keys [of "JObj kvs" acc] show ?thesis by auto
  next
    case True
    with "1.prems" obtain r where r: "resolveConditional E c (obj_get kvs ''if'') = Inr r"
      by (auto split: sum.splits)
    with True "1.prems"
    have "preprocess_loop E c (obj_get kvs (if truthy r then ''then'' else ''else''))
            (copy_fields (JObj kvs) acc) = Inr n" by simp
    from "1.IH" [OF _ r this] True copy_fields_keys [of "JObj kvs" acc]
    show ?thesis by auto
  qed
qed (insert copy_fields_keys, auto split: if_splits)

lemma preprocess_loop_error:
  "preprocess_loop E c p acc = Inl e \<Longrightarrow> \<exists>b\<in>set (if_blocks p). resolveConditional E c b = Inl e"
proof (induction E c p acc rule: preprocess_loop.induct)
  case (1 E c kvs acc)
  then have t: "truthy (obj_get kvs ''if'')" by (auto split: if_splits)
  show ?case
  proof (cases "resolveConditional E c (obj_get kvs ''if'')")
    case (Inl e')
    with t "1.prems" show ?thesis by auto
  next
    case (Inr r)
    with t "1.prems"
    have "preprocess_loop E c (obj_get kvs (if truthy r then ''then'' else ''else''))
            (copy_fields (JObj kvs) acc) = Inl e" by simp
    from "1.IH" [OF _ Inr this] t show ?thesis by (auto split: if_splits)
  qed
qed (auto split: if_splits)

text \<open>
  C4 (amended). \<open>_preprocessProperty\<close> is a total function: on every property that carries
  a truthy \<open>if\<close> and every context it ends, either by returning an object that has no
  \<open>if\<close>, \<open>then\<close> or \<open>else\<close> field, or by raising the error that the evaluation of one
  of the property's conditional blocks raises. At any level, when the branch selected is
  absent the loop ends with the fields accumulated so far and the other fields of that
  level, and nothing else.
\<close>

theorem preprocessProperty_flattens:
  assumes "truthy (js_prop property ''if'')"
  shows "((\<exists>newObj. preprocessProperty E c property = Inr (JObj newObj)
             \<and> ''if'' \<notin> fst ` set newObj \<and> ''then'' \<notin> fst ` set newObj
             \<and> ''else'' \<notin> fst ` set newObj)
          \<or> (\<exists>e. preprocessProperty E c property = Inl e
                \<and> (\<exists>b\<in>set (if_blocks property). resolveConditional E c b = Inl e)))
         \<and> (\<forall>kvs r newObj.
               truthy (obj_get kvs ''if'')
               \<and> resolveConditional E c (obj_get kvs ''if'') = Inr r
               \<and> obj_get kvs (if truthy r then ''then'' else ''else'') = JUndefined
             \<longrightarrow> preprocess_loop E c (JObj kvs) newObj = Inr (copy_fields (JObj kvs) newObj))"
proof (intro conjI allI impI)
  from assms obtain v where g: "js_get property ''if'' = Inr v" and t: "truthy v"
    by (cases "js_get property ''if''") (auto simp: js_prop_def)
  show "(\<exists>newObj. preprocessProperty E c property = Inr (JObj newObj)
             \<and> ''if'' \<notin> fst ` set newObj \<and> ''then'' \<notin> fst ` set newObj
             \<and> ''else'' \<notin> fst ` set newObj)
          \<or> (\<exists>e. preprocessProperty E c property = Inl e
                \<and> (\<exists>b\<in>set (if_blocks property). resolveConditional E c b = Inl e))"
  proof (cases "preprocess_loop E c property []")
    case (Inl e)
    with g t preprocess_loop_error [OF Inl] show ?thesis
      by (simp add: preprocessProperty_def)
  next
    case (Inr n)
    from preprocess_loop_keys [OF Inr]
    have "''if'' \<notin> fst ` set n \<and> ''then'' \<notin> fst ` set n \<and> ''else'' \<notin> fst ` set n"
      by (auto simp: conditional_key_def)
    with g t Inr show ?thesis by (simp add: preprocessProperty_def deepCopy_def)
  qed
next
  fix kvs r newObj
  assume "truthy (obj_get kvs ''if'')
               \<and> resolveConditional E c (obj_get kvs ''if'') = Inr r
               \<and> obj_get kvs (if truthy r then ''then'' else ''else'') = JUndefined"
  then show "preprocess_loop E c (JObj kvs) newObj = Inr (copy_fields (JObj kvs) newObj)"
    by simp
qed


text \<open>
  The device is older than the version asked for and the property has no \<open>else\<close>: what
  is left is its \<open>name\<close>.
\<close>

theorem preprocessProperty_flattens_witness:
  "preprocessProperty example_env [(''deviceVersion'', JNum 12)]
     (JObj [(''name'', JStr ''x''),
            (''if'', JObj [(''deviceVersionGreaterOrEqual'', JNum 13)]),
            (''then'', JObj [(''key'', JStr ''/a'')])])
   = Inr (JObj [(''name'', JStr ''x'')])"
proof -
  let ?kvs = "[(''name'', JStr ''x''),
            (''if'', JObj [(''deviceVersionGreaterOrEqual'', JNum 13)]),
            (''then'', JObj [(''key'', JStr ''/a'')])]"
  let ?c = "[(''deviceVersion'', JNum 12)]"
  have t: "truthy (js_prop (JObj ?kvs) ''if'')" by (simp add: js_prop_def obj_get_def)
  have r: "resolveConditional example_env ?c (obj_get ?kvs ''if'') = Inr (JBool False)"
    by (simp add: resolveConditional_def resolveConditional_run_def CONDITIONAL_FUNCS_def
          deviceVersionGreaterOrEqual_def obj_get_def example_env_def js_prop_def)
  have a: "truthy (obj_get ?kvs ''if'')
           \<and> resolveConditional example_env ?c (obj_get ?kvs ''if'') = Inr (JBool False)
           \<and> obj_get ?kvs (if truthy (JBool False) then ''then'' else ''else'') = JUndefined"
    using r by (simp add: obj_get_def)
  from preprocessProperty_flattens [OF t, of example_env ?c] a
  have "preprocess_loop example_env ?c (JObj ?kvs) [] = Inr (copy_fields (JObj ?kvs) [])"
    by blast
  then show ?thesis
    by (simp add: preprocessProperty_def deepCopy_def copy_fields_def conditional_key_def
          js_prop_def obj_get_def del: preprocess_loop.simps)
qed

text \<open>
  A conditional property whose block needs the device version, against a context that has
  none: \<open>_preprocessProperty\<close> raises and returns no property.
\<close>

theorem preprocessProperty_counterexample:
  "truthy (js_prop (JObj [(''if'', JObj [(''deviceVersionGreaterOrEqual'', JNum 13)]),
                          (''then'', JObj [(''disabled'', JBool True)])]) ''if'')
   \<and> preprocessProperty example_env []
       (JObj [(''if'', JObj [(''deviceVersionGreaterOrEqual'', JNum 13)]),
              (''then'', JObj [(''disabled'', JBool True)])])
     = Inl (Error (''deviceVersionGreaterOrEqual: context has no property ''
                    @ apostrophe @ ''deviceVersion'' @ apostrophe))"
  by (simp add: preprocessProperty_def resolveConditional_def resolveConditional_run_def
        CONDITIONAL_FUNCS_def deviceVersionGreaterOrEqual_def obj_get_def js_prop_def)

section \<open>Normalization options: properties\<close>

lemma fold_update_map_of:
  "map_of (fold (\<lambda>k acc. AList.update k (f k) acc) ks target) x
     = (if x \<in> set ks then Some (f x) else map_of target x)"
  by (induction ks arbitrary: target) (auto simp: update_conv')

lemma Object_assign_obj_get:
  "obj_get (Object_assign target (JObj kvs)) x
     = (if x \<in> fst ` set kvs then obj_get kvs x else obj_get target x)"
  by (simp add: Object_assign_def obj_get_def fold_update_map_of js_prop_def)

text \<open>
  C8 (amended). Whenever \<open>_processData\<close> builds its options, the tag set in them is the
  built-in \<open>name\<close> tag alone, unless the property sets \<open>addKeysByTag\<close>: only then the
  caller's tags are merged in, a caller's tag replacing a default tag of the same name.
  When \<open>addKeysByTag\<close> is an object it is handed on as \<open>opts\<close> in the place of
  \<open>global.addKeysByTag\<close>; the tag set stays as it is. These options are what
  \<open>normalize.data\<close> receives, unless the property has \<open>normalize: false\<close>.
\<close>

theorem tags_handed_to_normalize:
  assumes "normalize_options E P thisTags property k = Inr options"
  shows "tags (addKeysByTag options)
           = (if truthy (js_prop property ''addKeysByTag'')
              then JObj (Object_assign defaultTags thisTags) else JObj defaultTags)
         \<and> (\<forall>callerTags x. thisTags = JObj callerTags \<longrightarrow>
               obj_get (Object_assign defaultTags thisTags) x
                 = (if x \<in> fst ` set callerTags then obj_get callerTags x else obj_get defaultTags x))
         \<and> (truthy (js_prop property ''addKeysByTag'') \<and> is_object (js_prop property ''addKeysByTag'')
              \<longrightarrow> opts (addKeysByTag options) = js_prop property ''addKeysByTag'')
         \<and> (\<not> (truthy (js_prop property ''addKeysByTag'') \<and> is_object (js_prop property ''addKeysByTag''))
              \<longrightarrow> js_get (p_global P) ''addKeysByTag'' = Inr (opts (addKeysByTag options)))
         \<and> processData E P thisTags property data k
             = (if js_prop property ''normalize'' = JBool False then Inr data
                else normalize_data E data options)"
proof -
  from assms have
    "tags (addKeysByTag options)
           = (if truthy (js_prop property ''addKeysByTag'')
              then JObj (Object_assign defaultTags thisTags) else JObj defaultTags)"
    and "truthy (js_prop property ''addKeysByTag'') \<and> is_object (js_prop property ''addKeysByTag'')
              \<longrightarrow> opts (addKeysByTag options) = js_prop property ''addKeysByTag''"
    and "\<not> (truthy (js_prop property ''addKeysByTag'') \<and> is_object (js_prop property ''addKeysByTag''))
              \<longrightarrow> js_get (p_global P) ''addKeysByTag'' = Inr (opts (addKeysByTag options))"
    by (auto simp: normalize_options_def on_value_def Let_def split: sum.splits if_splits prod.splits)
  moreover have "processData E P thisTags property data k
             = (if js_prop property ''normalize'' = JBool False then Inr data
                else normalize_data E data options)"
    using assms by (simp add: processData_def on_value_def)
  ultimately show ?thesis by (simp add: Object_assign_obj_get)
qed

text \<open>
  A property with an \<open>addKeysByTag\<close> object, and a caller's tag \<open>facility\<close>.
\<close>

theorem tags_handed_to_normalize_witness:
  "map_sum id (\<lambda>options. (tags (addKeysByTag options), opts (addKeysByTag options)))
     (normalize_options example_env (example_properties (JObj []) (JObj []))
        (JObj [(''facility'', JStr ''east'')])
        (JObj [(''key'', JStr ''/mgmt/tm/ltm/pool''),
               (''addKeysByTag'', JObj [(''skip'', JArr [])])]) ''pools'')
    = Inr (JObj [(''name'', JObj [(''pattern'', JStr ''(.*)''), (''group'', JNum 1)]),
                 (''facility'', JStr ''east'')],
           JObj [(''skip'', JArr [])])"
proof -
  let ?p = "JObj [(''key'', JStr ''/mgmt/tm/ltm/pool''),
                  (''addKeysByTag'', JObj [(''skip'', JArr [])])]"
  let ?t = "JObj [(''facility'', JStr ''east'')]"
  obtain options where o:
    "normalize_options example_env (example_properties (JObj []) (JObj [])) ?t ?p ''pools''
       = Inr options"
    by (simp add: normalize_options_def on_value_def js_prop_def obj_get_def example_env_def
          example_properties_def example_global_def js_split_def Let_def)
  from tags_handed_to_normalize [OF o]
  have "tags (addKeysByTag options) = JObj (Object_assign defaultTags ?t)
        \<and> opts (addKeysByTag options) = JObj [(''skip'', JArr [])]"
    by (simp add: js_prop_def obj_get_def)
  with o show ?thesis
    by (simp add: Object_assign_def defaultTags_def js_prop_def obj_get_def)
qed

text \<open>
  A property without \<open>addKeysByTag\<close>: the caller's tag \<open>facility\<close> is not in the tag set
  handed to the normalizer.
\<close>

theorem tags_counterexample:
  "map_sum id (\<lambda>options. tags (addKeysByTag options))
     (normalize_options example_env (example_properties (JObj []) (JObj []))
        (JObj [(''facility'', JStr ''east'')])
        (JObj [(''key'', JStr ''/mgmt/tm/sys'')]) ''system'')
    = Inr (JObj defaultTags)
   \<and> JObj defaultTags \<noteq> JObj (Object_assign defaultTags (JObj [(''facility'', JStr ''east'')]))"
  by (simp add: normalize_options_def on_value_def js_prop_def obj_get_def example_env_def
          example_properties_def example_global_def js_split_def Let_def Object_assign_def defaultTags_def)

section \<open>The final reshape: properties\<close>


lemma map_of_insert_index:
  "k \<notin> fst ` set kvs \<Longrightarrow> map_of (insert_index k v kvs) = (map_of kvs)(k \<mapsto> v)"
  by (induction kvs) (auto simp: fun_upd_twist)

lemma map_of_own_put: "map_of (own_put k v kvs) = (map_of kvs)(k \<mapsto> v)"
  by (simp add: own_put_def map_of_insert_index update_conv')

lemma keys_of_map_of: "fst ` set kvs = dom (map_of kvs)"
  by (simp add: dom_map_of_conv_image_fst)

lemma keys_own_put: "fst ` set (own_put k v kvs) = insert k (fst ` set kvs)"
  by (simp add: keys_of_map_of map_of_own_put)


lemma obj_get_own_put: "obj_get (own_put k v d) x = (if x = k then v else obj_get d x)"
  by (simp add: obj_get_def map_of_own_put)





lemma obj_get_JObj_in_keys: "obj_get data p = JObj o1 \<Longrightarrow> p \<in> fst ` set data"
  by (auto simp: obj_get_def split: option.splits dest: map_of_SomeD intro: rev_image_eqI)




















text \<open>An object lists the names that are array indices first, whatever the order of the
  assignments.\<close>

lemma indices_first:
  "map fst (ordered_data [''b'', ''10'', ''9'', ''a''] []) = [''9'', ''10'', ''b'', ''a'']"
  by code_simp

section \<open>The run of collect: an invariant\<close>














subsection \<open>An entry begins\<close>








subsection \<open>A load completes\<close>







subsection \<open>The context entries\<close>










subsection \<open>The whole run\<close>

lemma done_stays:
  assumes "stage st = Done"
  shows "stage (step E P i st) = Done \<and> result (step E P i st) = result st"
proof (cases "i < length (jobs st)")
  case False
  with assms show ?thesis by (simp add: step_def)
next
  case True
  let ?j = "jobs st ! i"
  obtain st1 failure where c:
    "complete E P ?j (st\<lparr>jobs := take i (jobs st) @ drop (Suc i) (jobs st)\<rparr>) = (st1, failure)"
    by (cases "complete E P ?j (st\<lparr>jobs := take i (jobs st) @ drop (Suc i) (jobs st)\<rparr>)")
  then have s1: "stage st1 = Done \<and> result st1 = result st"
    using assms by (auto simp: complete_def split: sum.splits)
  then show ?thesis using True c
    by (cases "jgroup ?j")
       (auto simp: step_def Let_def join_rejected_def join_fulfilled_def publish_def
          split: option.splits)
qed

lemma done_stays_fold:
  "stage st = Done \<Longrightarrow> result (fold (step E P) later st) = result st"
proof (induction later arbitrary: st)
  case Nil
  then show ?case by simp
next
  case (Cons i later)
  from done_stays [OF Cons.prems, of E P i] Cons.IH [of "step E P i st"]
  show ?case by simp
qed


lemma Run_Inv: "Inv E P name st \<Longrightarrow> Run E P name st"
  by (simp add: Run_def)









section \<open>collect: properties\<close>












text \<open>
  A disabled property under a name that \<open>Object.prototype\<close> has: the read of
  \<open>this.collectedData\<close> finds the inherited member, and the tree holds it.
\<close>

lemma disabled_inherited_name:
  "collect example_env
     (example_properties (JObj [(''constructor'', JObj [(''disabled'', JBool True)])]) (JObj [])) [] []
     = Resolved (JObj [(''constructor'', JInherited ''constructor'')])"
  by code_simp

text \<open>
  C2 (amended). When the load of a property completes with an error, from the loader or
  from the normalization of its payload, while \<open>collect\<close> waits for the join of that
  property's group and the join is still pending, \<open>collect\<close> rejects with that very
  error, unchanged, whatever completes afterwards: no tree is returned. The name and the
  key of the property are written to the log, followed by the line of \<open>collect\<close>.
\<close>

theorem collect_rejects_unchanged:
  assumes "collect_run E P options schedule = st"
    and "i < length (jobs st)"
    and "stage st = WaitFor (jgroup (jobs st ! i))"
    and "jgroup (jobs st ! i) \<in> set (live st)"
    and "load_and_process E P (this_tags st) (jobs st ! i) = Inl err"
  shows "(\<forall>later. collect E P options (schedule @ i # later) = Rejected err)
         \<and> logs (collect_run E P options (schedule @ [i]))
             = logs st @ [property_error_message (jkey (jobs st ! i)) (jprop (jobs st ! i)) err,
                          ''Error: SystemStats.collect: '' @ show_error err]"
proof -
  let ?j = "jobs st ! i"
  have s: "step E P i st
             = reject_collect err
                 (st\<lparr>jobs := take i (jobs st) @ drop (Suc i) (jobs st),
                     logs := logs st @ [property_error_message (jkey ?j) (jprop ?j) err],
                     live := removeAll (jgroup ?j) (live st)\<rparr>)"
    using assms(2-5) by (simp add: step_def Let_def complete_def join_rejected_def)
  then have d: "stage (step E P i st) = Done" and r: "result (step E P i st) = Rejected err"
    and l: "logs (step E P i st)
             = logs st @ [property_error_message (jkey ?j) (jprop ?j) err,
                          ''Error: SystemStats.collect: '' @ show_error err]"
    by (simp_all add: reject_collect_def)
  have run: "collect_run E P options (schedule @ i # later) = fold (step E P) later (step E P i st)"
    for later using assms(1) by (simp add: collect_run_def)
  show ?thesis
  proof (intro conjI allI)
    fix later
    from run [of later] done_stays_fold [OF d, of E P later] r
    show "collect E P options (schedule @ i # later) = Rejected err"
      by (simp add: collect_def)
  next
    from run [of "[]"] l
    show "logs (collect_run E P options (schedule @ [i]))
             = logs st @ [property_error_message (jkey ?j) (jprop ?j) err,
                          ''Error: SystemStats.collect: '' @ show_error err]"
      by simp
  qed
qed

lemma failing_stats_begin:
  "collect_run example_env (example_properties failing_stats (JObj [])) [] []
     = \<lparr>contextData = [], collectedData = [], this_tags = JObj [], logs = [],
        jobs = [\<lparr>jgroup = Stats, jkey = ''pools'',
                  jprop = JObj [(''key'', JStr ''/mgmt/tm/ltm/pool'')],
                  jendpoint = JStr ''/mgmt/tm/ltm/pool''\<rparr>,
                \<lparr>jgroup = Stats, jkey = ''virtualServers'',
                  jprop = JObj [(''key'', JStr ''/fail'')], jendpoint = JStr ''/fail''\<rparr>],
        live = [Stats], stage = WaitFor Stats, result = Pending,
        history = [Published (Phase 0),
                   Began Stats ''pools'' (JObj [(''key'', JStr ''/mgmt/tm/ltm/pool'')]),
                   Began Stats ''virtualServers'' (JObj [(''key'', JStr ''/fail'')])]\<rparr>"
  by code_simp

text \<open>
  The load of \<open>virtualServers\<close> fails first; \<open>pools\<close> completes afterwards.
\<close>

theorem collect_rejects_unchanged_witness:
  "collect example_env (example_properties failing_stats (JObj [])) [] [1, 0] = Rejected (Error ''boom'')
   \<and> logs (collect_run example_env (example_properties failing_stats (JObj [])) [] [1])
      = [''Error: SystemStats._processProperty: virtualServers (/fail): Error: boom'',
         ''Error: SystemStats.collect: Error: boom'']"
proof -
  let ?P = "example_properties failing_stats (JObj [])"
  let ?st = "collect_run example_env ?P [] []"
  have i: "1 < length (jobs ?st)" by (simp add: failing_stats_begin)
  have w: "stage ?st = WaitFor (jgroup (jobs ?st ! 1))" by (simp add: failing_stats_begin)
  have l: "jgroup (jobs ?st ! 1) \<in> set (live ?st)" by (simp add: failing_stats_begin)
  have e: "load_and_process example_env ?P (this_tags ?st) (jobs ?st ! 1) = Inl (Error ''boom'')"
    by (simp add: failing_stats_begin load_and_process_def on_value_def)
       (simp add: example_env_def)
  from collect_rejects_unchanged [OF refl i w l e]
  show ?thesis
    by (simp add: failing_stats_begin property_error_message_def js_prop_def obj_get_def)
qed

text \<open>
  The loader fails with \<open>boom\<close> on the endpoint of \<open>virtualServers\<close>: \<open>collect\<close> rejects
  with the loader's error as it is. The name \<open>virtualServers\<close> and the key \<open>/fail\<close> are
  in the log, not in the error.
\<close>

theorem collect_rejects_counterexample:
  "collect example_env (example_properties failing_stats (JObj [])) [] [1]
     = Rejected (Error ''boom'')
   \<and> loadEndpoint example_env (JStr ''/fail'') JUndefined = Inl (Error ''boom'')
   \<and> logs (collect_run example_env (example_properties failing_stats (JObj [])) [] [1])
      = [''Error: SystemStats._processProperty: virtualServers (/fail): Error: boom'',
         ''Error: SystemStats.collect: Error: boom'']"
  by code_simp

text \<open>
  C1 (the code does not meet the claim). With a context in two phases, the synchronous
  run of \<open>_computeContextData\<close> begins the entry of the second phase before anything of
  the first phase is loaded or published: both loads are in flight and the context is
  empty. \<open>collect\<close> resolves when the first phase is done, with the load of the second
  still in flight. A conditional entry of the second phase that needs the device version
  of the first is evaluated against the empty context and throws.
\<close>

theorem context_phases_begin_together:
  "history (collect_run example_env (example_properties (JObj []) two_phases) [] [])
     = [Began (Phase 0) ''deviceVersion''
          (JObj [(''key'', JStr ''/mgmt/tm/sys/version''), (''normalize'', JBool False)]),
        Began (Phase 1) ''provisioning'' (JObj [(''key'', JStr ''/mgmt/tm/sys/provision'')])]
   \<and> map jkey (jobs (collect_run example_env (example_properties (JObj []) two_phases) [] []))
     = [''deviceVersion'', ''provisioning'']
   \<and> contextData (collect_run example_env (example_properties (JObj []) two_phases) [] []) = []
   \<and> collect example_env (example_properties (JObj []) two_phases) [] [0] = Resolved (JObj [])
   \<and> map jkey (jobs (collect_run example_env (example_properties (JObj []) two_phases) [] [0]))
     = [''provisioning'']
   \<and> collect example_env (example_properties (JObj []) two_phases_conditional) [] []
     = Rejected (Error (''deviceVersionGreaterOrEqual: context has no property ''
                         @ apostrophe @ ''deviceVersion'' @ apostrophe))"
  by code_simp

section \<open>The sink data filter: properties\<close>

lemma obj_get_map_at:
  "obj_get (map (\<lambda>kv. if fst kv = p then (fst kv, f (snd kv)) else kv) kvs) p
     = (if p \<in> fst ` set kvs then f (obj_get kvs p) else JUndefined)"
  by (induction kvs) (auto simp: obj_get_def)

lemma obj_get_Cons: "obj_get ((k, v) # kvs) x = (if x = k then v else obj_get kvs x)"
  by (simp add: obj_get_def)

lemma keys_map_at:
  "fst ` set (map (\<lambda>kv. if fst kv = p then (fst kv, f (snd kv)) else kv) kvs) = fst ` set kvs"
  by (induction kvs) auto

lemma delete_absent: "k \<notin> fst ` set al \<Longrightarrow> AList.delete k al = al"
  by (induction al) (auto simp: AList.delete_eq)

lemma blacklisted_empty: "blacklist this = [] \<Longrightarrow> blacklisted this path t = t"
  by (simp add: blacklisted_def)

lemma blacklisted_tmstats:
  assumes "blacklist this = [(''tmstats'', JBool True)]" and "obj_get dataCtx ''data'' = JObj data"
  shows "js_prop (blacklisted this [''data''] (JObj dataCtx)) ''data''
           = JObj (AList.delete ''tmstats'' data)"
proof -
  from assms(2) have k: "''data'' \<in> fst ` set dataCtx" by (rule obj_get_JObj_in_keys)
  show ?thesis
  proof (cases "''tmstats'' \<in> fst ` set data")
    case True
    let ?g1 = "map (\<lambda>kv. if fst kv = ''data''
                          then (fst kv, delete_key ''tmstats'' (snd kv)) else kv) dataCtx"
    from True have "has_key (JObj data) ''tmstats''" by (simp add: has_key_def)
    with assms have
      "blacklisted this [''data''] (JObj dataCtx)
         = JObj (map (\<lambda>kv. if fst kv = ''data'' then (fst kv, reindex (snd kv)) else kv) ?g1)"
      by (simp add: blacklisted_def js_prop_def del: map_map cong: if_cong)
    then have "js_prop (blacklisted this [''data''] (JObj dataCtx)) ''data''
         = obj_get (map (\<lambda>kv. if fst kv = ''data'' then (fst kv, reindex (snd kv)) else kv) ?g1)
             ''data''"
      by (simp add: js_prop_def del: map_map)
    also have "\<dots> = reindex (obj_get ?g1 ''data'')"
      using k by (simp only: obj_get_map_at keys_map_at if_True)
    also have "obj_get ?g1 ''data'' = delete_key ''tmstats'' (obj_get dataCtx ''data'')"
      using k by (simp only: obj_get_map_at if_True)
    finally show ?thesis using assms(2) by simp
  next
    case False
    then have "\<not> has_key (JObj data) ''tmstats''" by (simp add: has_key_def)
    with assms False show ?thesis
      by (simp add: blacklisted_def js_prop_def delete_absent)
  qed
qed

lemma apply_on_context:
  assumes "a < length h" and "h ! a = JObj dataCtx"
  shows "DataFilter_apply this h a
           = (this, (h @ [JObj dataCtx])[length h := blacklisted this [''data''] (JObj dataCtx)],
              Inr (length h))"
  using assms
  by (simp add: DataFilter_apply_def deepCopy_alloc_def deepCopy_def applyBlacklist_def)

text \<open>
  C6. For every sink configuration \<open>{type, config}\<close> the constructor succeeds, and the
  filter blacklists \<open>tmstats\<close> if and only if the configuration is not of type \<open>Splunk\<close>
  with \<open>config.format\<close> \<open>legacy\<close>. Applied to a data context with a \<open>data\<close> mapping, the
  filter returns a copy whose data is the data without the key \<open>tmstats\<close>; for the one
  combination the data is kept as it is.
\<close>

theorem tmstats_blacklist:
  assumes "obj_get cfg ''config'' = JObj config"
  shows "\<exists>this. new_DataFilter (JObj cfg) = Inr this
           \<and> (''tmstats'' \<in> fst ` set (blacklist this)
                \<longleftrightarrow> \<not> (obj_get cfg ''type'' = JStr ''Splunk''
                         \<and> obj_get config ''format'' = JStr ''legacy''))
           \<and> (\<forall>h a dataCtx data.
                 a < length h \<and> h ! a = JObj dataCtx \<and> obj_get dataCtx ''data'' = JObj data \<longrightarrow>
                 (\<exists>h' c. DataFilter_apply this h a = (this, h', Inr c)
                     \<and> js_prop (h' ! c) ''data''
                         = JObj (if obj_get cfg ''type'' = JStr ''Splunk''
                                    \<and> obj_get config ''format'' = JStr ''legacy''
                                 then data else AList.delete ''tmstats'' data)))"
proof (cases "obj_get cfg ''type'' = JStr ''Splunk'' \<and> obj_get config ''format'' = JStr ''legacy''")
  case True
  let ?f = "\<lparr>consumerConfig = JObj cfg, blacklist = []\<rparr>"
  have n: "new_DataFilter (JObj cfg) = Inr ?f"
    using assms True
    by (simp add: new_DataFilter_def applyGlobalFilters_def on_value_def deepCopy_def js_prop_def)
  have "\<exists>h' c. DataFilter_apply ?f h a = (?f, h', Inr c) \<and> js_prop (h' ! c) ''data'' = JObj data"
    if "a < length h \<and> h ! a = JObj dataCtx \<and> obj_get dataCtx ''data'' = JObj data"
    for h a dataCtx data
    using that apply_on_context [of a h dataCtx ?f]
    by (simp add: blacklisted_empty js_prop_def)
  then have "\<forall>h a dataCtx data.
      a < length h \<and> h ! a = JObj dataCtx \<and> obj_get dataCtx ''data'' = JObj data \<longrightarrow>
      (\<exists>h' c. DataFilter_apply ?f h a = (?f, h', Inr c) \<and> js_prop (h' ! c) ''data'' = JObj data)"
    by blast
  with n True show ?thesis by (intro exI [of _ ?f]) simp
next
  case False
  let ?f = "\<lparr>consumerConfig = JObj cfg, blacklist = [(''tmstats'', JBool True)]\<rparr>"
  have n: "new_DataFilter (JObj cfg) = Inr ?f"
    using assms False
    by (auto simp: new_DataFilter_def applyGlobalFilters_def on_value_def deepCopy_def
          Object_assign_def js_prop_def obj_get_Cons)
  have "\<exists>h' c. DataFilter_apply ?f h a = (?f, h', Inr c)
          \<and> js_prop (h' ! c) ''data'' = JObj (AList.delete ''tmstats'' data)"
    if "a < length h \<and> h ! a = JObj dataCtx \<and> obj_get dataCtx ''data'' = JObj data"
    for h a dataCtx data
    using that apply_on_context [of a h dataCtx ?f] blacklisted_tmstats [of ?f dataCtx data]
    by simp
  then have "\<forall>h a dataCtx data.
      a < length h \<and> h ! a = JObj dataCtx \<and> obj_get dataCtx ''data'' = JObj data \<longrightarrow>
      (\<exists>h' c. DataFilter_apply ?f h a = (?f, h', Inr c)
          \<and> js_prop (h' ! c) ''data'' = JObj (AList.delete ''tmstats'' data))"
    by blast
  with n False show ?thesis unfolding if_not_P [OF False] by (intro exI [of _ ?f]) simp
qed

text \<open>
  A Kafka sink and a legacy Splunk sink, applied to the same data context.
\<close>

theorem tmstats_blacklist_witness:
  "(\<exists>this h'. new_DataFilter (JObj [(''type'', JStr ''Kafka''), (''config'', JObj [])]) = Inr this
       \<and> DataFilter_apply this [example_dataCtx] 0 = (this, h', Inr 1)
       \<and> js_prop (h' ! 1) ''data'' = JObj [(''system'', JObj [(''hostname'', JStr ''bigip1'')])])
   \<and> (\<exists>this h'. new_DataFilter (JObj [(''type'', JStr ''Splunk''),
                                       (''config'', JObj [(''format'', JStr ''legacy'')])]) = Inr this
       \<and> DataFilter_apply this [example_dataCtx] 0 = (this, h', Inr 1)
       \<and> js_prop (h' ! 1) ''data''
           = JObj [(''system'', JObj [(''hostname'', JStr ''bigip1'')]),
                   (''tmstats'', JObj [(''cpuInfoStat'', JArr [])])])"
proof -
  let ?data = "[(''system'', JObj [(''hostname'', JStr ''bigip1'')]),
                (''tmstats'', JObj [(''cpuInfoStat'', JArr [])])]"
  let ?ctx = "[(''data'', JObj ?data), (''type'', JStr ''systemInfo'')]"
  have d: "(0::nat) < length [example_dataCtx] \<and> [example_dataCtx] ! 0 = JObj ?ctx
           \<and> obj_get ?ctx ''data'' = JObj ?data"
    by (simp add: example_dataCtx_def obj_get_def)
  have k: "obj_get [(''type'', JStr ''Kafka''), (''config'', JObj [])] ''config'' = JObj []"
    by (simp add: obj_get_def)
  have s: "obj_get [(''type'', JStr ''Splunk''), (''config'', JObj [(''format'', JStr ''legacy'')])]
             ''config'' = JObj [(''format'', JStr ''legacy'')]"
    by (simp add: obj_get_def)
  from tmstats_blacklist [OF k] obtain f1 where
    f1: "new_DataFilter (JObj [(''type'', JStr ''Kafka''), (''config'', JObj [])]) = Inr f1"
    and a1: "\<forall>h a dataCtx data.
                 a < length h \<and> h ! a = JObj dataCtx \<and> obj_get dataCtx ''data'' = JObj data \<longrightarrow>
                 (\<exists>h' c. DataFilter_apply f1 h a = (f1, h', Inr c)
                     \<and> js_prop (h' ! c) ''data'' = JObj (AList.delete ''tmstats'' data))"
    by (auto simp: obj_get_def)
  from a1 d obtain h1 c1 where
    r1: "DataFilter_apply f1 [example_dataCtx] 0 = (f1, h1, Inr c1)"
    and v1: "js_prop (h1 ! c1) ''data'' = JObj (AList.delete ''tmstats'' ?data)"
    by blast
  from r1 have c1: "c1 = 1"
    by (auto simp: DataFilter_apply_def deepCopy_alloc_def split: sum.splits)
  from tmstats_blacklist [OF s] obtain f2 where
    f2: "new_DataFilter (JObj [(''type'', JStr ''Splunk''),
                               (''config'', JObj [(''format'', JStr ''legacy'')])]) = Inr f2"
    and a2: "\<forall>h a dataCtx data.
                 a < length h \<and> h ! a = JObj dataCtx \<and> obj_get dataCtx ''data'' = JObj data \<longrightarrow>
                 (\<exists>h' c. DataFilter_apply f2 h a = (f2, h', Inr c)
                     \<and> js_prop (h' ! c) ''data'' = JObj data)"
    by (auto simp: obj_get_def)
  from a2 d obtain h2 c2 where
    r2: "DataFilter_apply f2 [example_dataCtx] 0 = (f2, h2, Inr c2)"
    and v2: "js_prop (h2 ! c2) ''data'' = JObj ?data"
    by blast
  from r2 have c2: "c2 = 1"
    by (auto simp: DataFilter_apply_def deepCopy_alloc_def split: sum.splits)
  from f1 r1 v1 c1 f2 r2 v2 c2 show ?thesis
    by (auto simp: AList.delete_eq)
qed

text \<open>
  C7. A call of \<open>apply\<close> on the data context at an address leaves the filter and every
  object that existed before the call as they were, the caller's data context among
  them. What it returns is a new object, the filtered copy, which is a function of the
  blacklist and of the tree of the input alone; a second call on the same input leaves
  the first copy alone and returns another new object with the same content. A call that
  throws (the input has no properties to read) throws again.
\<close>

theorem apply_copies_before_mutating:
  assumes "a < length h"
    and "DataFilter_apply this h a = (this1, h1, r1)"
    and "DataFilter_apply this1 h1 a = (this2, h2, r2)"
  shows "this1 = this \<and> this2 = this
         \<and> (\<forall>b<length h. h1 ! b = h ! b \<and> h2 ! b = h ! b)
         \<and> (\<forall>c. r1 = Inr c \<longrightarrow>
               c = length h \<and> h1 ! c = filtered this (h ! a) \<and> h2 ! c = h1 ! c
               \<and> (\<exists>c'. r2 = Inr c' \<and> c' \<noteq> c \<and> h2 ! c' = h1 ! c))
         \<and> (\<forall>e. r1 = Inl e \<longrightarrow> r2 = Inl e)"
proof -
  let ?t = "deepCopy (h ! a)"
  from assms(2) have t1: "this1 = this"
    and h1: "h1 = (h @ [?t]) \<or> h1 = (h @ [?t])[length h := blacklisted this [''data''] ?t]"
    and r1: "r1 = Inr (length h) \<and> h1 = (h @ [?t])[length h := blacklisted this [''data''] ?t]
             \<or> (\<exists>e. r1 = Inl e \<and> js_get ?t ''data'' = Inl e \<and> h1 = h @ [?t])"
    by (auto simp: DataFilter_apply_def deepCopy_alloc_def applyBlacklist_def split: sum.splits)
  from h1 have l1: "length h1 = Suc (length h)" by auto
  from h1 have f1: "\<forall>b<length h. h1 ! b = h ! b" by (auto simp: nth_append)
  with assms(1) have a1: "h1 ! a = h ! a" by simp
  let ?t2 = "deepCopy (h1 ! a)"
  from assms(3) t1 have t2: "this2 = this"
    and h2: "h2 = (h1 @ [?t2]) \<or> h2 = (h1 @ [?t2])[length h1 := blacklisted this [''data''] ?t2]"
    and r2: "r2 = Inr (length h1) \<and> h2 = (h1 @ [?t2])[length h1 := blacklisted this [''data''] ?t2]
             \<or> (\<exists>e. r2 = Inl e \<and> js_get ?t2 ''data'' = Inl e \<and> h2 = h1 @ [?t2])"
    by (auto simp: DataFilter_apply_def deepCopy_alloc_def applyBlacklist_def split: sum.splits)
  from h2 have f2: "\<forall>b<length h1. h2 ! b = h1 ! b" by (auto simp: nth_append)
  show ?thesis
  proof (intro conjI allI impI)
    show "this1 = this" by (rule t1)
    show "this2 = this" by (rule t2)
  next
    fix b assume "b < length h"
    with f1 f2 l1 show "h1 ! b = h ! b" and "h2 ! b = h ! b" by auto
  next
    fix c assume c: "r1 = Inr c"
    with r1 have cl: "c = length h"
      and hc: "h1 = (h @ [?t])[length h := blacklisted this [''data''] ?t]" by auto
    from cl show "c = length h" .
    from hc cl show v: "h1 ! c = filtered this (h ! a)" by (simp add: filtered_def)
    from f2 l1 cl show "h2 ! c = h1 ! c" by simp
    from c r1 have ok: "\<exists>d. js_get ?t ''data'' = Inr d"
      by (cases "js_get ?t ''data''")
         (use assms(2) in \<open>auto simp: DataFilter_apply_def deepCopy_alloc_def split: sum.splits\<close>)
    with r2 a1 have "r2 = Inr (length h1)
        \<and> h2 = (h1 @ [?t2])[length h1 := blacklisted this [''data''] ?t2]" by auto
    with a1 v cl l1 show "\<exists>c'. r2 = Inr c' \<and> c' \<noteq> c \<and> h2 ! c' = h1 ! c"
      by (auto simp: filtered_def)
  next
    fix e assume "r1 = Inl e"
    with r1 have "js_get ?t ''data'' = Inl e" by auto
    with a1 assms(3) show "r2 = Inl e"
      by (auto simp: DataFilter_apply_def deepCopy_alloc_def split: sum.splits)
  qed
qed

lemma example_apply_twice:
  "DataFilter_apply \<lparr>consumerConfig = JObj [(''type'', JStr ''Kafka''), (''config'', JObj [])],
                     blacklist = [(''tmstats'', JBool True)]\<rparr> [example_dataCtx] 0
     = (\<lparr>consumerConfig = JObj [(''type'', JStr ''Kafka''), (''config'', JObj [])],
         blacklist = [(''tmstats'', JBool True)]\<rparr>,
        [example_dataCtx,
         JObj [(''data'', JObj [(''system'', JObj [(''hostname'', JStr ''bigip1'')])]),
               (''type'', JStr ''systemInfo'')]],
        Inr 1)
   \<and> DataFilter_apply \<lparr>consumerConfig = JObj [(''type'', JStr ''Kafka''), (''config'', JObj [])],
                        blacklist = [(''tmstats'', JBool True)]\<rparr>
        [example_dataCtx,
         JObj [(''data'', JObj [(''system'', JObj [(''hostname'', JStr ''bigip1'')])]),
               (''type'', JStr ''systemInfo'')]] 0
     = (\<lparr>consumerConfig = JObj [(''type'', JStr ''Kafka''), (''config'', JObj [])],
         blacklist = [(''tmstats'', JBool True)]\<rparr>,
        [example_dataCtx,
         JObj [(''data'', JObj [(''system'', JObj [(''hostname'', JStr ''bigip1'')])]),
               (''type'', JStr ''systemInfo'')],
         JObj [(''data'', JObj [(''system'', JObj [(''hostname'', JStr ''bigip1'')])]),
               (''type'', JStr ''systemInfo'')]],
        Inr 2)"
  by code_simp

text \<open>
  The filter of a Kafka sink applied twice to the example data context.
\<close>

theorem apply_copies_before_mutating_witness:
  "filtered \<lparr>consumerConfig = JObj [(''type'', JStr ''Kafka''), (''config'', JObj [])],
             blacklist = [(''tmstats'', JBool True)]\<rparr> example_dataCtx
     = JObj [(''data'', JObj [(''system'', JObj [(''hostname'', JStr ''bigip1'')])]),
             (''type'', JStr ''systemInfo'')]
   \<and> fst (snd (DataFilter_apply
        \<lparr>consumerConfig = JObj [(''type'', JStr ''Kafka''), (''config'', JObj [])],
          blacklist = [(''tmstats'', JBool True)]\<rparr> [example_dataCtx] 0)) ! 0
     = example_dataCtx"
proof -
  let ?f = "\<lparr>consumerConfig = JObj [(''type'', JStr ''Kafka''), (''config'', JObj [])],
              blacklist = [(''tmstats'', JBool True)]\<rparr>"
  let ?t = "JObj [(''data'', JObj [(''system'', JObj [(''hostname'', JStr ''bigip1'')])]),
                  (''type'', JStr ''systemInfo'')]"
  have a: "(0::nat) < length [example_dataCtx]" by simp
  have h1: "DataFilter_apply ?f [example_dataCtx] 0 = (?f, [example_dataCtx, ?t], Inr 1)"
    and h2: "DataFilter_apply ?f [example_dataCtx, ?t] 0
               = (?f, [example_dataCtx, ?t, ?t], Inr 2)"
    using example_apply_twice by simp_all
  from apply_copies_before_mutating [OF a h1 h2]
  have "[example_dataCtx, ?t] ! 1 = filtered ?f ([example_dataCtx] ! 0)
        \<and> [example_dataCtx, ?t] ! 0 = [example_dataCtx] ! 0"
    by simp
  with h1 show ?thesis by simp
qed

end
